theory Spec2Isabelle
  imports Complex_Main
begin

section \<open>Cross-entropy written from scratch\<close>

text \<open>
  The notebook defines two functions on Python lists of numbers:
  \<^verbatim>\<open>
  def cross_entropy(Y, P):
      Y = np.int_(Y)
      P = np.float_(P)
      return -np.sum(Y*np.log(P) + (1 -Y)*np.log(1-P))

  def m_cross_entropy(Y, P):
      Y = np.float_(Y)
      P = np.float_(P)
      return -np.sum(np.sum(Y*np.log(P) + (1 -Y)*np.log(1-P)))
  \<close>
  A list entry is a real number. A float64 value is a real number or one of the three
  special values of IEEE arithmetic, which \<open>np.log\<close> produces at zero and below it and
  which the arithmetic propagates; the logarithm, the products and the sums of finite
  values are exact. An int64 label is an integer of the int64 range, and arithmetic on
  labels wraps around.
\<close>

datatype npfloat = Fin real | PInf | NInf | NaN

datatype error = ValueError | OverflowError | FileNotFoundError | IndexError | ZeroDivisionError

fun np_neg :: "npfloat \<Rightarrow> npfloat" where
  "np_neg (Fin x) = Fin (- x)"
| "np_neg PInf = NInf"
| "np_neg NInf = PInf"
| "np_neg NaN = NaN"

fun np_add :: "npfloat \<Rightarrow> npfloat \<Rightarrow> npfloat" where
  "np_add (Fin x) (Fin y) = Fin (x + y)"
| "np_add NaN b = NaN"
| "np_add a NaN = NaN"
| "np_add PInf NInf = NaN"
| "np_add NInf PInf = NaN"
| "np_add PInf b = PInf"
| "np_add a PInf = PInf"
| "np_add NInf b = NInf"
| "np_add a NInf = NInf"

definition signed_inf :: "bool \<Rightarrow> npfloat" where
  "signed_inf positive = (if positive then PInf else NInf)"

fun np_mul :: "npfloat \<Rightarrow> npfloat \<Rightarrow> npfloat" where
  "np_mul (Fin x) (Fin y) = Fin (x * y)"
| "np_mul NaN b = NaN"
| "np_mul a NaN = NaN"
| "np_mul (Fin x) PInf = (if x = 0 then NaN else signed_inf (0 < x))"
| "np_mul (Fin x) NInf = (if x = 0 then NaN else signed_inf (x < 0))"
| "np_mul PInf (Fin y) = (if y = 0 then NaN else signed_inf (0 < y))"
| "np_mul NInf (Fin y) = (if y = 0 then NaN else signed_inf (y < 0))"
| "np_mul PInf PInf = PInf"
| "np_mul PInf NInf = NInf"
| "np_mul NInf PInf = NInf"
| "np_mul NInf NInf = PInf"

text \<open>\<open>np.log\<close> of a finite float: minus infinity at zero, not a number below it.\<close>

definition np_log :: "real \<Rightarrow> npfloat" where
  "np_log x = (if x < 0 then NaN else if x = 0 then NInf else Fin (ln x))"

text \<open>
  \<open>np.int_\<close> converts every entry to int64, truncating towards zero. An entry whose
  integer part is outside the int64 range raises \<open>OverflowError\<close> (a Python int does;
  numpy leaves the cast of such a float undefined). Subtraction on int64 wraps around.
  \<open>np.float_\<close> keeps the value.
\<close>

definition np_trunc :: "real \<Rightarrow> int" where
  "np_trunc y = (if 0 \<le> y then \<lfloor>y\<rfloor> else \<lceil>y\<rceil>)"

definition in_int64 :: "int \<Rightarrow> bool" where
  "in_int64 k = (- (2 ^ 63) \<le> k \<and> k < 2 ^ 63)"

definition wrap_int64 :: "int \<Rightarrow> int" where
  "wrap_int64 k = (k + 2 ^ 63) mod 2 ^ 64 - 2 ^ 63"

definition int64_sub :: "int \<Rightarrow> int \<Rightarrow> int" where
  "int64_sub a b = wrap_int64 (a - b)"

definition np_int :: "real list \<Rightarrow> error + int list" where
  "np_int Y =
     (if list_all (\<lambda>y. in_int64 (np_trunc y)) Y then Inr (map np_trunc Y)
      else Inl OverflowError)"

text \<open>
  The labels on which \<open>1 - Y\<close> stays in the int64 range: those whose integer part is
  in the range and is not one of its two lowest values.
\<close>

definition no_wrap :: "real \<Rightarrow> bool" where
  "no_wrap y = (- (2 ^ 63) + 2 \<le> np_trunc y \<and> np_trunc y < 2 ^ 63)"

definition np_float :: "real \<Rightarrow> real" where
  "np_float y = y"

text \<open>\<open>np.sum\<close> of a one-dimensional array, and of the scalar it returns.\<close>

definition np_sum :: "npfloat list \<Rightarrow> npfloat" where
  "np_sum xs = foldl np_add (Fin 0) xs"

definition np_sum_scalar :: "npfloat \<Rightarrow> npfloat" where
  "np_sum_scalar x = np_sum [x]"

text \<open>
  The element-wise operators pair the two arrays by numpy's broadcasting rule for
  one-dimensional shapes: equal lengths pair up, a length-one array is repeated, and any
  other pair of lengths raises \<open>ValueError\<close>.
\<close>

definition np_broadcast :: "'a list \<Rightarrow> 'b list \<Rightarrow> error + ('a \<times> 'b) list" where
  "np_broadcast xs ys =
     (if length xs = length ys then Inr (zip xs ys)
      else if length xs = 1 then Inr (zip (replicate (length ys) (hd xs)) ys)
      else if length ys = 1 then Inr (zip xs (replicate (length xs) (hd ys)))
      else Inl ValueError)"

definition cross_entropy :: "real list \<Rightarrow> real list \<Rightarrow> error + npfloat" where
  "cross_entropy Y0 P0 =
     (case np_int Y0 of
        Inl e \<Rightarrow> Inl e
      | Inr Y \<Rightarrow>
          (let P = map np_float P0
           in case np_broadcast Y P of
                Inl e \<Rightarrow> Inl e
              | Inr yps \<Rightarrow>
                  Inr (np_neg (np_sum (map (\<lambda>(y, p).
                    np_add (np_mul (Fin (of_int y)) (np_log p))
                           (np_mul (Fin (of_int (int64_sub 1 y))) (np_log (1 - p)))) yps)))))"

definition m_cross_entropy :: "real list \<Rightarrow> real list \<Rightarrow> error + npfloat" where
  "m_cross_entropy Y0 P0 =
     (let Y = map np_float Y0;
          P = map np_float P0
      in case np_broadcast Y P of
           Inl e \<Rightarrow> Inl e
         | Inr yps \<Rightarrow>
             Inr (np_neg (np_sum_scalar (np_sum (map (\<lambda>(y, p).
               np_add (np_mul (Fin y) (np_log p))
                      (np_mul (Fin (1 - y)) (np_log (1 - p)))) yps)))))"

subsection \<open>Float64 values handed to the functions\<close>

text \<open>
  What a caller passes in is a list of float64 values, and a complement \<open>1 - p\<close> that the
  caller computes is a float64 subtraction: the exact difference rounded to the nearest
  float64 value, ties to the even significand. A float64 value has a significand of 53
  bits; below \<open>2\<^sup>-\<^sup>1\<^sup>0\<^sup>2\<^sup>2\<close> the spacing stays at \<open>2\<^sup>-\<^sup>1\<^sup>0\<^sup>7\<^sup>4\<close>. (Overflow does not arise
  for \<open>1 - p\<close>.)
\<close>

definition round_half_even :: "real \<Rightarrow> int" where
  "round_half_even x =
     (let f = \<lfloor>x\<rfloor>; d = x - of_int f
      in if d < 1 / 2 then f else if 1 / 2 < d then f + 1 else if even f then f else f + 1)"

definition float64_exponent :: "real \<Rightarrow> int" where
  "float64_exponent x = max (- 1022) \<lfloor>log 2 \<bar>x\<bar>\<rfloor>"

definition round64 :: "real \<Rightarrow> real" where
  "round64 x =
     (if x = 0 then 0
      else let u = 2 powr of_int (float64_exponent x - 52)
           in of_int (round_half_even (x / u)) * u)"

definition is_float64 :: "real \<Rightarrow> bool" where
  "is_float64 x = (round64 x = x)"

definition float64_sub :: "real \<Rightarrow> real \<Rightarrow> real" where
  "float64_sub a b = round64 (a - b)"


subsection \<open>The formulas the notebook displays\<close>

text \<open>
  The markdown above \<open>cross_entropy\<close> gives the binary formula
  \<open>- \<Sum>i. y\<^sub>i ln p\<^sub>i + (1 - y\<^sub>i) ln (1 - p\<^sub>i)\<close> over the real numbers.
\<close>

definition bce_term :: "real \<Rightarrow> real \<Rightarrow> real" where
  "bce_term y p = y * ln p + (1 - y) * ln (1 - p)"

definition binary_formula :: "real list \<Rightarrow> real list \<Rightarrow> real" where
  "binary_formula Y P = - (\<Sum>i<length Y. bce_term (Y ! i) (P ! i))"




section \<open>The notebooks as programs over a file system\<close>

text \<open>
  A notebook is a straight-line script: its code cells run once each, from top to bottom.
  The library calls (pandas, scikit-learn) are parameters; what the notebook does with
  them is written out. The effects on the outside world are reading files and printing:
  the world keeps a log of the reads, each with its path and separator, and standard
  output, the list of the calls of \<open>print\<close>, each with the texts of its arguments.
\<close>

type_synonym stdout = "string list list"

record world =
  reads :: "(string \<times> char) list"
  printed :: stdout

definition py_print :: "string list \<Rightarrow> world \<Rightarrow> world" where
  "py_print args w = w\<lparr>printed := printed w @ [args]\<rparr>"

text \<open>
  The pandas reader applied to the file system of the run: the rows of the parsed file,
  or the error it raises (a missing file, for one).
\<close>

type_synonym 'row reader = "string \<Rightarrow> char \<Rightarrow> error + 'row list"

definition pd_read_csv :: "'row reader \<Rightarrow> string \<Rightarrow> world \<Rightarrow> (error + 'row list) \<times> world" where
  "pd_read_csv rd path w = (rd path CHR '','', w\<lparr>reads := reads w @ [(path, CHR '','')]\<rparr>)"

definition pd_read_table ::
  "'row reader \<Rightarrow> string \<Rightarrow> char \<Rightarrow> world \<Rightarrow> (error + 'row list) \<times> world" where
  "pd_read_table rd path sep w = (rd path sep, w\<lparr>reads := reads w @ [(path, sep)]\<rparr>)"

subsection \<open>The regularization notebook\<close>

text \<open>
  \<^verbatim>\<open>
  train_data = pd.read_csv('testData/regularizationData.csv', header=None)
  X = train_data.iloc[:, :-1]
  y = train_data.iloc[:, -1]
  lasso_reg = linear_model.Lasso()
  lasso_reg.fit(X, y)
  reg_coef = lasso_reg.coef_
  \<close>
  A data frame without header is the list of its rows, each the list of its cells.
  \<open>iloc[:, :-1]\<close> keeps all columns but the last; \<open>iloc[:, -1]\<close> is the last column and
  raises \<open>IndexError\<close> on a frame without columns.
\<close>

definition iloc_all_but_last :: "'a list list \<Rightarrow> 'a list list" where
  "iloc_all_but_last df = map butlast df"

definition iloc_last :: "'a list list \<Rightarrow> error + 'a list" where
  "iloc_last df = (if \<exists>row\<in>set df. row = [] then Inl IndexError else Inr (map last df))"

record regularization_result =
  X_frame :: "real list list"
  y_series :: "real list"
  reg_coef :: "real list"

definition regularization_notebook ::
  "real list reader \<Rightarrow> (real list list \<Rightarrow> real list \<Rightarrow> real list) \<Rightarrow> world
     \<Rightarrow> (error + regularization_result) \<times> world" where
  "regularization_notebook rd lasso_fit w =
     (case pd_read_csv rd ''testData/regularizationData.csv'' w of
        (Inl e, w1) \<Rightarrow> (Inl e, w1)
      | (Inr train_data, w1) \<Rightarrow>
          (let X = iloc_all_but_last train_data in
           case iloc_last train_data of
             Inl e \<Rightarrow> (Inl e, w1)
           | Inr y \<Rightarrow> (Inr \<lparr>X_frame = X, y_series = y, reg_coef = lasso_fit X y\<rparr>, w1)))"

subsection \<open>The spam notebook\<close>

text \<open>
  The estimators the notebook instantiates, with the hyperparameters it sets, and the
  scikit-learn functions it calls. The four metrics return a score or raise (with the
  default \<open>average='binary'\<close>, \<open>precision_score\<close>, \<open>recall_score\<close> and \<open>f1_score\<close> raise
  \<open>ValueError\<close> on labels that are not binary). The other functions are taken to
  return; a fit is a function of the estimator, the data and the labels (the random state
  of an ensemble is fixed for the run); \<open>format\<close> is Python's conversion of a float to
  text.
\<close>

datatype estimator =
    MultinomialNB
  | BaggingClassifier nat
  | RandomForestClassifier nat
  | AdaBoostClassifier nat real

record ('l, 'f, 'c, 'm) sklearn =
  train_test_split :: "string list \<Rightarrow> 'l list \<Rightarrow> nat
                         \<Rightarrow> string list \<times> string list \<times> 'l list \<times> 'l list"
  fit_transform :: "string list \<Rightarrow> 'c \<times> 'f"
  transform :: "'c \<Rightarrow> string list \<Rightarrow> 'f"
  fit :: "estimator \<Rightarrow> 'f \<Rightarrow> 'l list \<Rightarrow> 'm"
  predict :: "'m \<Rightarrow> 'f \<Rightarrow> 'l list"
  accuracy_score :: "'l list \<Rightarrow> 'l list \<Rightarrow> error + real"
  precision_score :: "'l list \<Rightarrow> 'l list \<Rightarrow> error + real"
  recall_score :: "'l list \<Rightarrow> 'l list \<Rightarrow> error + real"
  f1_score :: "'l list \<Rightarrow> 'l list \<Rightarrow> error + real"
  format :: "real \<Rightarrow> string"

text \<open>
  A statement \<open>print(label, format(score))\<close>: the score is computed first, and an
  exception of the metric leaves standard output as it is. Statements run in sequence
  until one raises.
\<close>

definition print_score ::
  "(real \<Rightarrow> string) \<Rightarrow> string \<Rightarrow> error + real \<Rightarrow> world \<Rightarrow> (error + unit) \<times> world" where
  "print_score fmt label score w =
     (case score of
        Inl e \<Rightarrow> (Inl e, w)
      | Inr v \<Rightarrow> (Inr (), py_print [label, fmt v] w))"

definition and_then ::
  "(error + unit) \<times> world \<Rightarrow> (world \<Rightarrow> (error + 'a) \<times> world) \<Rightarrow> (error + 'a) \<times> world" where
  "and_then r f = (case r of (Inl e, w) \<Rightarrow> (Inl e, w) | (Inr u, w) \<Rightarrow> f w)"

text \<open>
  \<^verbatim>\<open>
  def print_metrics(y_true, preds, model_name=None):
      if model_name == None:
          print('Accuracy score: ', format(accuracy_score(y_true, preds)))
          print('Precision score: ', format(precision_score(y_true, preds)))
          print('Recall score: ', format(recall_score(y_true, preds)))
          print('F1 score: ', format(f1_score(y_true, preds)))
          print('\n\n')
      else:
          print('Accuracy score for ' + model_name + ' :' , format(accuracy_score(y_true, preds)))
          print('Precision score ' + model_name + ' :', format(precision_score(y_true, preds)))
          print('Recall score ' + model_name + ' :', format(recall_score(y_true, preds)))
          print('F1 score ' + model_name + ' :', format(f1_score(y_true, preds)))
          print('\n\n')
  \<close>
\<close>

definition print_metrics ::
  "('l, 'f, 'c, 'm) sklearn \<Rightarrow> 'l list \<Rightarrow> 'l list \<Rightarrow> string option \<Rightarrow> world
     \<Rightarrow> (error + unit) \<times> world" where
  "print_metrics sk y_true preds model_name w =
     (case model_name of
        None \<Rightarrow>
          and_then (print_score (format sk) ''Accuracy score: ''
                      (accuracy_score sk y_true preds) w) (\<lambda>w.
          and_then (print_score (format sk) ''Precision score: ''
                      (precision_score sk y_true preds) w) (\<lambda>w.
          and_then (print_score (format sk) ''Recall score: ''
                      (recall_score sk y_true preds) w) (\<lambda>w.
          and_then (print_score (format sk) ''F1 score: ''
                      (f1_score sk y_true preds) w) (\<lambda>w.
          (Inr (), py_print [[CHR 0x0A, CHR 0x0A]] w)))))
      | Some name \<Rightarrow>
          and_then (print_score (format sk) (''Accuracy score for '' @ name @ '' :'')
                      (accuracy_score sk y_true preds) w) (\<lambda>w.
          and_then (print_score (format sk) (''Precision score '' @ name @ '' :'')
                      (precision_score sk y_true preds) w) (\<lambda>w.
          and_then (print_score (format sk) (''Recall score '' @ name @ '' :'')
                      (recall_score sk y_true preds) w) (\<lambda>w.
          and_then (print_score (format sk) (''F1 score '' @ name @ '' :'')
                      (f1_score sk y_true preds) w) (\<lambda>w.
          (Inr (), py_print [[CHR 0x0A, CHR 0x0A]] w))))))"

text \<open>
  The cells of the notebook. The first reads the SMS collection, with the columns named
  \<open>label\<close> and \<open>sms_message\<close>, maps the labels (\<open>ham\<close> to 0, \<open>spam\<close> to 1, anything else
  to a missing value), splits, vectorizes, fits naive Bayes and prints its four scores.
  The later cells instantiate, fit and apply the three ensembles and print the scores of
  all four models. The state of the notebook is its global variables.
\<close>

definition map_label :: "string \<Rightarrow> int option" where
  "map_label l = (if l = ''ham'' then Some 0 else if l = ''spam'' then Some 1 else None)"

record 'f spam_state =
  y_test :: "int option list"
  training_data :: 'f
  testing_data :: 'f
  y_train :: "int option list"
  predictions :: "int option list"
  bagging_pred :: "int option list"
  random_pred :: "int option list"
  ada_pred :: "int option list"

definition spam_cell_naive_bayes ::
  "(string \<times> string) reader \<Rightarrow> (int option, 'f, 'c, 'm) sklearn \<Rightarrow> world
     \<Rightarrow> (error + 'f spam_state) \<times> world" where
  "spam_cell_naive_bayes rd sk w =
     (case pd_read_table rd ''Data/SMSSpamCollection'' (CHR 0x09) w of
        (Inl e, w1) \<Rightarrow> (Inl e, w1)
      | (Inr df0, w1) \<Rightarrow>
          (let df = map (\<lambda>(label, sms_message). (map_label label, sms_message)) df0;
               (X_train, X_test, y_train, y_test) =
                 train_test_split sk (map snd df) (map fst df) 1;
               (count_vector, training_data) = fit_transform sk X_train;
               testing_data = transform sk count_vector X_test;
               naive_bayes = fit sk MultinomialNB training_data y_train;
               predictions = predict sk naive_bayes testing_data
           in
             and_then (print_score (format sk) ''Accuracy score: ''
                         (accuracy_score sk y_test predictions) w1) (\<lambda>w.
             and_then (print_score (format sk) ''Precision score: ''
                         (precision_score sk y_test predictions) w) (\<lambda>w.
             and_then (print_score (format sk) ''Recall score: ''
                         (recall_score sk y_test predictions) w) (\<lambda>w.
             and_then (print_score (format sk) ''F1 score: ''
                         (f1_score sk y_test predictions) w) (\<lambda>w.
             (Inr \<lparr>y_test = y_test, training_data = training_data,
                    testing_data = testing_data, y_train = y_train,
                    predictions = predictions, bagging_pred = [], random_pred = [],
                    ada_pred = []\<rparr>, w)))))))"

definition spam_cells_ensembles ::
  "(int option, 'f, 'c, 'm) sklearn \<Rightarrow> 'f spam_state \<Rightarrow> world
     \<Rightarrow> (error + 'f spam_state) \<times> world" where
  "spam_cells_ensembles sk s0 w =
     (let bagging_class = fit sk (BaggingClassifier 200) (training_data s0) (y_train s0);
          randomForest_class = fit sk (RandomForestClassifier 200) (training_data s0) (y_train s0);
          adaBoost_class = fit sk (AdaBoostClassifier 300 0.2) (training_data s0) (y_train s0);
          s = s0\<lparr>bagging_pred := predict sk bagging_class (testing_data s0),
                 random_pred := predict sk randomForest_class (testing_data s0),
                 ada_pred := predict sk adaBoost_class (testing_data s0)\<rparr>
      in
        and_then (print_metrics sk (y_test s) (bagging_pred s) (Some ''bagging'') w) (\<lambda>w.
        and_then (print_metrics sk (y_test s) (random_pred s) (Some ''Random Forest'') w) (\<lambda>w.
        and_then (print_metrics sk (y_test s) (ada_pred s) (Some ''AdaBoost'') w) (\<lambda>w.
        and_then (print_metrics sk (y_test s) (predictions s) (Some ''Naive Bayes'') w) (\<lambda>w.
        (Inr s, w))))))"

definition spam_notebook ::
  "(string \<times> string) reader \<Rightarrow> (int option, 'f, 'c, 'm) sklearn \<Rightarrow> world
     \<Rightarrow> (error + 'f spam_state) \<times> world" where
  "spam_notebook rd sk w =
     (case spam_cell_naive_bayes rd sk w of
        (Inl e, w1) \<Rightarrow> (Inl e, w1)
      | (Inr s, w1) \<Rightarrow> spam_cells_ensembles sk s w1)"

text \<open>The four metric calls on one pair of label vectors, in the order of the prints.\<close>

definition scores ::
  "('l, 'f, 'c, 'm) sklearn \<Rightarrow> 'l list \<Rightarrow> 'l list \<Rightarrow> (error + real) list" where
  "scores sk y_true preds =
     [accuracy_score sk y_true preds, precision_score sk y_true preds,
      recall_score sk y_true preds, f1_score sk y_true preds]"

section \<open>The training loop of the neural-network notebook\<close>

text \<open>
  \<^verbatim>\<open>
  model = nn.Sequential(nn.Linear(784, 128), nn.ReLU(),
                        nn.Linear(128, 64), nn.ReLU(),
                        nn.Linear(64, 10), nn.LogSoftmax(dim=1))
  criterion = nn.NLLLoss()
  optimizer = optim.SGD(model.parameters(), lr=0.003)

  epochs = 5
  for e in range(epochs):
      running_loss = 0
      for images, labels in trainloader:
          images = images.view(images.shape[0], -1)
          optimizer.zero_grad()
          output = model.forward(images)
          loss = criterion(output, labels)
          loss.backward()
          optimizer.step()
          running_loss += loss.item()
      else:
          print(f"Training loss: {running_loss/len(trainloader)}")
  \<close>
  The tensor operations, the loss, automatic differentiation and the optimizer belong to
  the library and are parameters. The state of the run is the parameters of the model,
  their accumulated gradients, the running loss, the printed losses and the sequence of
  the library calls made so far.
\<close>

datatype layer = Linear nat nat | ReLU | LogSoftmax nat

definition model :: "layer list" where
  "model = [Linear 784 128, ReLU, Linear 128 64, ReLU, Linear 64 10, LogSoftmax 1]"

definition epochs :: nat where
  "epochs = 5"

definition lr :: real where
  "lr = 0.003"

record ('t, 'l, 'p, 'g) torch =
  view :: "'t \<Rightarrow> 't"
  layer_forward :: "'p \<Rightarrow> nat \<Rightarrow> layer \<Rightarrow> 't \<Rightarrow> 't"
  nll_loss :: "'t \<Rightarrow> 'l \<Rightarrow> real"
  autograd :: "layer list \<Rightarrow> 'p \<Rightarrow> 't \<Rightarrow> 'l \<Rightarrow> 'g"
  grad_zero :: "'g"
  grad_add :: "'g \<Rightarrow> 'g \<Rightarrow> 'g"
  sgd_step :: "real \<Rightarrow> 'p \<Rightarrow> 'g \<Rightarrow> 'p"

datatype event = Iterate nat | ZeroGrad | Forward | Criterion | Backward | Step | PrintLoss

record ('p, 'g) train_state =
  params :: 'p
  grads :: 'g
  running_loss :: real
  losses :: "real list"
  events :: "event list"

text \<open>\<open>model.forward\<close>: the modules of the stack in order, each with its index.\<close>

definition forward :: "('t, 'l, 'p, 'g) torch \<Rightarrow> 'p \<Rightarrow> 't \<Rightarrow> 't" where
  "forward th ps x = foldl (\<lambda>t (k, l). layer_forward th ps k l t) x (enumerate 0 model)"

text \<open>The body of the inner loop, for one batch.\<close>

definition train_batch ::
  "('t, 'l, 'p, 'g) torch \<Rightarrow> ('p, 'g) train_state \<Rightarrow> 't \<times> 'l \<Rightarrow> ('p, 'g) train_state" where
  "train_batch th s batch =
     (case batch of (images0, labels) \<Rightarrow>
        let images = view th images0;
            s1 = s\<lparr>grads := grad_zero th, events := events s @ [ZeroGrad]\<rparr>;
            output = forward th (params s1) images;
            s2 = s1\<lparr>events := events s1 @ [Forward]\<rparr>;
            loss = nll_loss th output labels;
            s3 = s2\<lparr>events := events s2 @ [Criterion]\<rparr>;
            s4 = s3\<lparr>grads := grad_add th (grads s3) (autograd th model (params s3) images labels),
                    events := events s3 @ [Backward]\<rparr>;
            s5 = s4\<lparr>params := sgd_step th lr (params s4) (grads s4),
                    events := events s4 @ [Step]\<rparr>
        in s5\<lparr>running_loss := running_loss s5 + loss\<rparr>)"

text \<open>
  One pass of the outer loop. The loader yields the batches of the \<open>e\<close>-th iteration
  over it (it shuffles), and \<open>len(trainloader)\<close> is their number. The \<open>else\<close> branch of
  the \<open>for\<close> runs after the batches, as the loop has no \<open>break\<close>; its division raises
  \<open>ZeroDivisionError\<close> on an empty loader.
\<close>

definition train_epoch ::
  "('t, 'l, 'p, 'g) torch \<Rightarrow> (nat \<Rightarrow> ('t \<times> 'l) list) \<Rightarrow> ('p, 'g) train_state \<Rightarrow> nat
     \<Rightarrow> error + ('p, 'g) train_state" where
  "train_epoch th trainloader s e =
     (let s0 = s\<lparr>running_loss := 0, events := events s @ [Iterate e]\<rparr>;
          s1 = foldl (train_batch th) s0 (trainloader e)
      in if length (trainloader e) = 0 then Inl ZeroDivisionError
         else Inr (s1\<lparr>losses := losses s1 @ [running_loss s1 / real (length (trainloader e))],
                      events := events s1 @ [PrintLoss]\<rparr>))"

fun train_epochs ::
  "('t, 'l, 'p, 'g) torch \<Rightarrow> (nat \<Rightarrow> ('t \<times> 'l) list) \<Rightarrow> ('p, 'g) train_state \<Rightarrow> nat list
     \<Rightarrow> error + ('p, 'g) train_state" where
  "train_epochs th trainloader s [] = Inr s"
| "train_epochs th trainloader s (e # es) =
     (case train_epoch th trainloader s e of
        Inl err \<Rightarrow> Inl err
      | Inr s' \<Rightarrow> train_epochs th trainloader s' es)"

definition train ::
  "('t, 'l, 'p, 'g) torch \<Rightarrow> (nat \<Rightarrow> ('t \<times> 'l) list) \<Rightarrow> ('p, 'g) train_state
     \<Rightarrow> error + ('p, 'g) train_state" where
  "train th trainloader s = train_epochs th trainloader s [0..<epochs]"



section \<open>Properties of the cross-entropy functions\<close>

subsection \<open>Float arithmetic and broadcasting\<close>

lemma np_add_zero_left: "np_add (Fin 0) x = x"
  by (cases x) simp_all

lemma np_add_assoc: "np_add (np_add a b) c = np_add a (np_add b c)"
  by (cases a; cases b; cases c) simp_all

lemma np_sum_scalar_id: "np_sum_scalar x = x"
  by (simp add: np_sum_scalar_def np_sum_def np_add_zero_left)

lemma foldl_np_add: "foldl np_add a xs = np_add a (foldr np_add xs (Fin 0))"
proof (induction xs arbitrary: a)
  case Nil
  show ?case by (cases a) simp_all
next
  case (Cons x xs)
  have "foldl np_add a (x # xs) = foldl np_add (np_add a x) xs"
    by simp
  also have "\<dots> = np_add (np_add a x) (foldr np_add xs (Fin 0))"
    by (rule Cons.IH)
  also have "\<dots> = np_add a (np_add x (foldr np_add xs (Fin 0)))"
    by (rule np_add_assoc)
  finally show ?case by simp
qed

lemma np_sum_Cons: "np_sum (x # xs) = np_add x (np_sum xs)"
  by (simp add: np_sum_def np_add_zero_left foldl_np_add)

lemma np_sum_Nil: "np_sum [] = Fin 0"
  by (simp add: np_sum_def)

lemma np_sum_Fin: "np_sum (map Fin xs) = Fin (sum_list xs)"
  by (induction xs) (simp_all add: np_sum_Nil np_sum_Cons)

lemma np_broadcast_same: "length xs = length ys \<Longrightarrow> np_broadcast xs ys = Inr (zip xs ys)"
  by (simp add: np_broadcast_def)

lemma length_one_conv: "length xs = Suc 0 \<longleftrightarrow> (\<exists>x. xs = [x])"
  by (cases xs) auto

lemma zip_replicate_left: "zip (replicate (length ys) x) ys = map (\<lambda>y. (x, y)) ys"
  by (induction ys) simp_all

lemma zip_replicate_right: "zip xs (replicate (length xs) y) = map (\<lambda>x. (x, y)) xs"
  by (induction xs) simp_all

lemma np_broadcast_map:
  "np_broadcast (map f xs) (map g ys) =
     (case np_broadcast xs ys of Inl e \<Rightarrow> Inl e | Inr zs \<Rightarrow> Inr (map (\<lambda>(x, y). (f x, g y)) zs))"
proof (cases "length xs = length ys")
  case True
  then show ?thesis by (simp add: np_broadcast_def zip_map_map)
next
  case neq: False
  show ?thesis
  proof (cases "length xs = 1")
    case True
    then obtain x where "xs = [x]" by (auto simp: length_one_conv)
    then show ?thesis
      using neq zip_replicate_left [of "map g ys" "f x"] zip_replicate_left [of ys x]
      by (simp add: np_broadcast_def)
  next
    case nx: False
    show ?thesis
    proof (cases "length ys = 1")
      case True
      then obtain y where "ys = [y]" by (auto simp: length_one_conv)
      then show ?thesis
        using neq nx zip_replicate_right [of "map f xs" "g y"] zip_replicate_right [of xs y]
        by (simp add: np_broadcast_def)
    next
      case False
      then show ?thesis using neq nx by (simp add: np_broadcast_def)
    qed
  qed
qed

lemma float_term_finite:
  assumes "0 < p" and "p < 1"
  shows "np_add (np_mul (Fin y) (np_log p)) (np_mul (Fin (1 - y)) (np_log (1 - p)))
    = Fin (bce_term y p)"
  using assms by (simp add: np_log_def bce_term_def)

lemma sum_list_zip_nth:
  assumes "length Y = length P"
  shows "sum_list (map (\<lambda>(y, p). f y p) (zip Y P)) = (\<Sum>i<length Y. f (Y ! i) (P ! i))"
proof -
  have "sum_list (map (\<lambda>(y, p). f y p) (zip Y P))
      = (\<Sum>i = 0..<length (zip Y P). (\<lambda>(y, p). f y p) (zip Y P ! i))"
    by (simp add: sum_list_sum_nth)
  also have "\<dots> = (\<Sum>i = 0..<length Y. f (Y ! i) (P ! i))"
    using assms by (intro sum.cong) simp_all
  finally show ?thesis by (simp add: atLeast0LessThan)
qed

lemma map_np_float: "map np_float xs = xs"
  by (induction xs) (simp_all add: np_float_def)

lemma m_cross_entropy_same_length:
  assumes "length Y = length P"
  shows "m_cross_entropy Y P = Inr (np_neg (np_sum (map (\<lambda>(y, p).
    np_add (np_mul (Fin y) (np_log p)) (np_mul (Fin (1 - y)) (np_log (1 - p)))) (zip Y P))))"
  using assms
  by (simp add: m_cross_entropy_def map_np_float np_broadcast_same np_sum_scalar_id)

lemma m_cross_entropy_finite:
  assumes len: "length Y = length P"
    and unit: "\<forall>j<length P. 0 < P ! j \<and> P ! j < 1"
  shows "m_cross_entropy Y P = Inr (Fin (binary_formula Y P))"
proof -
  have "map (\<lambda>(y, p). np_add (np_mul (Fin y) (np_log p)) (np_mul (Fin (1 - y)) (np_log (1 - p))))
          (zip Y P)
      = map Fin (map (\<lambda>(y, p). bce_term y p) (zip Y P))"
    unfolding map_map
  proof (rule map_cong [OF refl])
    fix z assume "z \<in> set (zip Y P)"
    then obtain j where "j < length P" and "z = (Y ! j, P ! j)"
      using len by (auto simp: set_zip)
    then show "(case z of (y, p) \<Rightarrow>
        np_add (np_mul (Fin y) (np_log p)) (np_mul (Fin (1 - y)) (np_log (1 - p))))
        = (Fin \<circ> (\<lambda>(y, p). bce_term y p)) z"
      using unit by (simp add: float_term_finite)
  qed
  then have "m_cross_entropy Y P
      = Inr (np_neg (np_sum (map Fin (map (\<lambda>(y, p). bce_term y p) (zip Y P)))))"
    by (simp only: m_cross_entropy_same_length [OF len])
  also have "\<dots> = Inr (Fin (binary_formula Y P))"
    by (simp only: np_sum_Fin np_neg.simps binary_formula_def sum_list_zip_nth [OF len])
  finally show ?thesis .
qed

lemma ln_sum4:
  assumes "0 < a" "0 < b" "0 < c" "0 < d"
  shows "ln a + ln b + ln c + ln d = ln (a * b * c * (d::real))"
  using assms by (simp add: ln_mult_pos)

lemma binary_formula_example1:
  "binary_formula [1, 0, 1, 1] [0.4, 0.6, 0.1, 0.5] = ln 125"
proof -
  have "binary_formula [1, 0, 1, 1] [0.4, 0.6, 0.1, 0.5]
      = - (ln 0.4 + ln 0.4 + ln 0.1 + ln 0.5)"
    by (simp add: binary_formula_def bce_term_def lessThan_nat_numeral lessThan_Suc)
  also have "ln 0.4 + ln 0.4 + ln 0.1 + ln 0.5 = ln (0.4 * 0.4 * 0.1 * 0.5 :: real)"
    by (rule ln_sum4) simp_all
  also have "(0.4 * 0.4 * 0.1 * 0.5 :: real) = 1 / 125"
    by simp
  also have "- ln (1 / 125 :: real) = ln 125"
    by (simp add: ln_div)
  finally show ?thesis .
qed

lemma binary_formula_complement:
  assumes "length Y = length P"
  shows "binary_formula (map (\<lambda>y. 1 - y) Y) (map (\<lambda>p. 1 - p) P) = binary_formula Y P"
proof -
  have "(\<Sum>i<length Y. bce_term (map (\<lambda>y. 1 - y) Y ! i) (map (\<lambda>p. 1 - p) P ! i))
      = (\<Sum>i<length Y. bce_term (Y ! i) (P ! i))"
    using assms by (intro sum.cong) (simp_all add: bce_term_def)
  then show ?thesis by (simp add: binary_formula_def)
qed


lemma ln_less_if_less_exp:
  fixes p c :: real
  assumes "0 < p" and "p < exp c"
  shows "ln p < c"
proof -
  have "ln p < ln (exp c)"
    using assms by (subst ln_less_cancel_iff) simp_all
  then show ?thesis by simp
qed

subsection \<open>Decimal bounds on the logarithms of the examples\<close>

text \<open>
  The printed values are checked against the exact logarithms: a Taylor bound on \<open>exp\<close> at a
  small argument, squared twelve times with the intermediate results rounded to 24 places.
\<close>

lemma exp_taylor_lower:
  fixes x :: real
  assumes "0 \<le> x"
  shows "(\<Sum>m<n. x ^ m / fact m) \<le> exp x"
proof -
  obtain t where t: "exp x = (\<Sum>m<n. x ^ m / fact m) + (exp t / fact n) * x ^ n"
    using Maclaurin_exp_le [of x n] by blast
  have "0 \<le> (exp t / fact n) * x ^ n"
    using assms by simp
  with t show ?thesis by linarith
qed

lemma exp_taylor_upper:
  fixes x :: real
  assumes "0 \<le> x" and "x \<le> 1 / 2"
  shows "exp x \<le> (\<Sum>m<n. x ^ m / fact m) + 2 * x ^ n / fact n"
proof -
  obtain t where t1: "\<bar>t\<bar> \<le> \<bar>x\<bar>"
    and t2: "exp x = (\<Sum>m<n. x ^ m / fact m) + (exp t / fact n) * x ^ n"
    using Maclaurin_exp_le [of x n] by blast
  have "t \<le> 1 / 2" using t1 assms by linarith
  then have "exp t \<le> exp (1 / 2 :: real)" by simp
  also have "\<dots> \<le> 1 + 1 / 2 + (1 / 2)\<^sup>2"
    by (rule exp_bound) simp_all
  also have "\<dots> \<le> 2" by (simp add: power2_eq_square)
  finally have "exp t \<le> 2" .
  then have "exp t * (x ^ n / fact n) \<le> 2 * (x ^ n / fact n)"
    using assms by (intro mult_right_mono) simp_all
  with t2 show ?thesis by (simp add: field_simps)
qed

lemma exp_double_le:
  fixes x :: real
  assumes "exp x \<le> u" and "u\<^sup>2 \<le> v"
  shows "exp (2 * x) \<le> v"
proof -
  have "exp (2 * x) = (exp x)\<^sup>2" by (rule exp_double)
  also have "\<dots> \<le> u\<^sup>2" using assms(1) by (intro power_mono) simp_all
  finally show ?thesis using assms(2) by linarith
qed

lemma exp_double_ge:
  fixes x :: real
  assumes "0 \<le> l" and "l \<le> exp x" and "v \<le> l\<^sup>2"
  shows "v \<le> exp (2 * x)"
proof -
  have "l\<^sup>2 \<le> (exp x)\<^sup>2" using assms(1,2) by (intro power_mono) simp_all
  also have "\<dots> = exp (2 * x)" by (rule exp_double [symmetric])
  finally show ?thesis using assms(3) by linarith
qed

lemma exp_125_lower: "exp 4.828313737302300561408 < (125::real)"
proof -
  have "exp (0.001178787533521069473::real) \<le> (\<Sum>m<7. 0.001178787533521069473 ^ m / fact m) + 2 * 0.001178787533521069473 ^ 7 / fact 7"
    by (rule exp_taylor_upper) simp_all
  also have "\<dots> \<le> 1.001179482576621546235913"
    by (simp add: lessThan_nat_numeral lessThan_Suc fact_numeral power_divide)
  finally have s0: "exp (0.001178787533521069473::real) \<le> 1.001179482576621546235913" .
  have s1: "exp (0.002357575067042138946::real) \<le> 1.002360356332391646273514"
    using exp_double_le [OF s0, of "1.002360356332391646273514"] by (simp add: power2_eq_square)
  have s2: "exp (0.004715150134084277892::real) \<le> 1.004726283946799153890776"
    using exp_double_le [OF s1, of "1.004726283946799153890776"] by (simp add: power2_eq_square)
  have s3: "exp (0.009430300268168555784::real) \<le> 1.009474905653544079168878"
    using exp_double_le [OF s2, of "1.009474905653544079168878"] by (simp add: power2_eq_square)
  have s4: "exp (0.018860600536337111568::real) \<le> 1.019039585144231719891752"
    using exp_double_le [OF s3, of "1.019039585144231719891752"] by (simp add: power2_eq_square)
  have s5: "exp (0.037721201072674223136::real) \<le> 1.038441676090927888985458"
    using exp_double_le [OF s4, of "1.038441676090927888985458"] by (simp add: power2_eq_square)
  have s6: "exp (0.075442402145348446272::real) \<le> 1.07836111464253559487467"
    using exp_double_le [OF s5, of "1.07836111464253559487467"] by (simp add: power2_eq_square)
  have s7: "exp (0.150884804290696892544::real) \<le> 1.162862693573091796160256"
    using exp_double_le [OF s6, of "1.162862693573091796160256"] by (simp add: power2_eq_square)
  have s8: "exp (0.301769608581393785088::real) \<le> 1.352249644104066388166679"
    using exp_double_le [OF s7, of "1.352249644104066388166679"] by (simp add: power2_eq_square)
  have s9: "exp (0.603539217162787570176::real) \<le> 1.828579099979574208712345"
    using exp_double_le [OF s8, of "1.828579099979574208712345"] by (simp add: power2_eq_square)
  have s10: "exp (1.207078434325575140352::real) \<le> 3.343701524882109649901282"
    using exp_double_le [OF s9, of "3.343701524882109649901282"] by (simp add: power2_eq_square)
  have s11: "exp (2.414156868651150280704::real) \<le> 11.180339887498945338198164"
    using exp_double_le [OF s10, of "11.180339887498945338198164"] by (simp add: power2_eq_square)
  have s12: "exp (4.828313737302300561408::real) \<le> 124.999999999999929701428222"
    using exp_double_le [OF s11, of "124.999999999999929701428222"] by (simp add: power2_eq_square)
  from s12 show ?thesis by simp
qed

lemma exp_125_upper: "(125::real) < exp 4.828313737302301560832"
proof -
  have "(1.001179482576621546480199::real) \<le> (\<Sum>m<7. 0.001178787533521069717 ^ m / fact m)"
    by (simp add: lessThan_nat_numeral lessThan_Suc fact_numeral power_divide)
  also have "\<dots> \<le> exp 0.001178787533521069717"
    by (rule exp_taylor_lower) simp
  finally have s0: "(1.001179482576621546480199::real) \<le> exp 0.001178787533521069717" .
  have s1: "(1.002360356332391646762661::real) \<le> exp 0.002357575067042139434"
    using exp_double_ge [OF _ s0, of "1.002360356332391646762661"] by (simp add: power2_eq_square)
  have s2: "(1.004726283946799154871378::real) \<le> exp 0.004715150134084278868"
    using exp_double_ge [OF _ s1, of "1.004726283946799154871378"] by (simp add: power2_eq_square)
  have s3: "(1.00947490565354408113935::real) \<le> exp 0.009430300268168557736"
    using exp_double_ge [OF _ s2, of "1.00947490565354408113935"] by (simp add: power2_eq_square)
  have s4: "(1.019039585144231723870035::real) \<le> exp 0.018860600536337115472"
    using exp_double_ge [OF _ s3, of "1.019039585144231723870035"] by (simp add: power2_eq_square)
  have s5: "(1.038441676090927897093512::real) \<le> exp 0.037721201072674230944"
    using exp_double_ge [OF _ s4, of "1.038441676090927897093512"] by (simp add: power2_eq_square)
  have s6: "(1.078361114642535611714152::real) \<le> exp 0.075442402145348461888"
    using exp_double_ge [OF _ s5, of "1.078361114642535611714152"] by (simp add: power2_eq_square)
  have s7: "(1.16286269357309183247834::real) \<le> exp 0.150884804290696923776"
    using exp_double_ge [OF _ s6, of "1.16286269357309183247834"] by (simp add: power2_eq_square)
  have s8: "(1.352249644104066472632568::real) \<le> exp 0.301769608581393847552"
    using exp_double_ge [OF _ s7, of "1.352249644104066472632568"] by (simp add: power2_eq_square)
  have s9: "(1.828579099979574437150281::real) \<le> exp 0.603539217162787695104"
    using exp_double_ge [OF _ s8, of "1.828579099979574437150281"] by (simp add: power2_eq_square)
  have s10: "(3.343701524882110485334951::real) \<le> exp 1.207078434325575390208"
    using exp_double_ge [OF _ s9, of "3.343701524882110485334951"] by (simp add: power2_eq_square)
  have s11: "(11.180339887498950925079829::real) \<le> exp 2.414156868651150780416"
    using exp_double_ge [OF _ s10, of "11.180339887498950925079829"] by (simp add: power2_eq_square)
  have s12: "(125.000000000000054627900073::real) \<le> exp 4.828313737302301560832"
    using exp_double_ge [OF _ s11, of "125.000000000000054627900073"] by (simp add: power2_eq_square)
  from s12 show ?thesis by simp
qed



lemma less_ln_if_exp_less:
  fixes x a :: real
  assumes "exp x < a"
  shows "x < ln a"
proof -
  have "0 < a"
    using assms exp_gt_zero [of x] by linarith
  then have "exp x < exp (ln a)"
    using assms by simp
  then show ?thesis
    by (simp only: exp_less_cancel_iff)
qed

lemma abs_diff_less_if:
  fixes x c e l u :: real
  assumes "l < x" and "x < u" and "c - e \<le> l" and "u \<le> c + e"
  shows "\<bar>x - c\<bar> < e"
  using assms by linarith

lemma ln_125_value: "\<bar>ln 125 - 4.828313737302301\<bar> < (1 / 10 ^ 15 :: real)"
proof -
  have "4.828313737302300561408 < ln (125 :: real)"
    using exp_125_lower by (rule less_ln_if_exp_less)
  moreover have "ln (125 :: real) < 4.828313737302301560832"
    using exp_125_upper by (intro ln_less_if_less_exp) simp_all
  ultimately show ?thesis
    by (rule abs_diff_less_if) simp_all
qed


subsection \<open>The displayed formulas and the second example\<close>








section \<open>Properties of the notebooks\<close>

subsection \<open>Printed scores and file reads\<close>

lemma print_score_reads: "reads (snd (print_score fmt l sc w)) = reads w"
  by (cases sc) (simp_all add: print_score_def py_print_def)

lemma and_then_reads:
  assumes "reads (snd r) = k" and "\<And>w. reads w = k \<Longrightarrow> reads (snd (f w)) = k"
  shows "reads (snd (and_then r f)) = k"
proof (cases r)
  case (Pair res w1)
  with assms show ?thesis by (cases res) (simp_all add: and_then_def)
qed

lemma print_metrics_reads: "reads (snd (print_metrics sk y_true preds model_name w)) = reads w"
  unfolding print_metrics_def
  by (cases model_name)
    (simp_all add: and_then_reads print_score_reads py_print_def)

text \<open>Four scored prints in sequence return exactly when the four scores do.\<close>

lemma four_prints_Inr:
  assumes "and_then (print_score fmt l1 sc1 w) (\<lambda>w.
           and_then (print_score fmt l2 sc2 w) (\<lambda>w.
           and_then (print_score fmt l3 sc3 w) (\<lambda>w.
           and_then (print_score fmt l4 sc4 w) (\<lambda>w. (Inr x, k w))))) = (Inr x', w')"
  shows "\<exists>a p r f. [sc1, sc2, sc3, sc4] = [Inr a, Inr p, Inr r, Inr f] \<and> x' = x
    \<and> w' = k (w\<lparr>printed := printed w @ [[l1, fmt a], [l2, fmt p], [l3, fmt r], [l4, fmt f]]\<rparr>)"
  using assms
  by (cases sc1; cases sc2; cases sc3; cases sc4)
    (simp_all add: and_then_def print_score_def py_print_def)

lemma four_prints_returns:
  assumes "[sc1, sc2, sc3, sc4] = [Inr a, Inr p, Inr r, Inr f]"
  shows "and_then (print_score fmt l1 sc1 w) (\<lambda>w.
         and_then (print_score fmt l2 sc2 w) (\<lambda>w.
         and_then (print_score fmt l3 sc3 w) (\<lambda>w.
         and_then (print_score fmt l4 sc4 w) (\<lambda>w. (Inr x, k w))))) =
    (Inr x, k (w\<lparr>printed := printed w @ [[l1, fmt a], [l2, fmt p], [l3, fmt r], [l4, fmt f]]\<rparr>))"
  using assms by (simp add: and_then_def print_score_def py_print_def)

lemma print_metrics_returns:
  assumes "scores sk y_true preds = [Inr a, Inr p, Inr r, Inr f]"
  shows "print_metrics sk y_true preds None w =
      (Inr (), w\<lparr>printed := printed w @
         [[''Accuracy score: '', format sk a], [''Precision score: '', format sk p],
          [''Recall score: '', format sk r], [''F1 score: '', format sk f],
          [[CHR 0x0A, CHR 0x0A]]]\<rparr>)"
    and "print_metrics sk y_true preds (Some name) w =
      (Inr (), w\<lparr>printed := printed w @
         [[''Accuracy score for '' @ name @ '' :'', format sk a],
          [''Precision score '' @ name @ '' :'', format sk p],
          [''Recall score '' @ name @ '' :'', format sk r],
          [''F1 score '' @ name @ '' :'', format sk f],
          [[CHR 0x0A, CHR 0x0A]]]\<rparr>)"
proof -
  have m: "[accuracy_score sk y_true preds, precision_score sk y_true preds,
      recall_score sk y_true preds, f1_score sk y_true preds] = [Inr a, Inr p, Inr r, Inr f]"
    using assms by (simp add: scores_def)
  show "print_metrics sk y_true preds None w =
      (Inr (), w\<lparr>printed := printed w @
         [[''Accuracy score: '', format sk a], [''Precision score: '', format sk p],
          [''Recall score: '', format sk r], [''F1 score: '', format sk f],
          [[CHR 0x0A, CHR 0x0A]]]\<rparr>)"
    unfolding print_metrics_def option.case
    by (subst four_prints_returns [OF m]) (simp add: py_print_def)
  show "print_metrics sk y_true preds (Some name) w =
      (Inr (), w\<lparr>printed := printed w @
         [[''Accuracy score for '' @ name @ '' :'', format sk a],
          [''Precision score '' @ name @ '' :'', format sk p],
          [''Recall score '' @ name @ '' :'', format sk r],
          [''F1 score '' @ name @ '' :'', format sk f],
          [[CHR 0x0A, CHR 0x0A]]]\<rparr>)"
    unfolding print_metrics_def option.case
    by (subst four_prints_returns [OF m]) (simp add: py_print_def)
qed

lemma print_metrics_Inr:
  assumes "print_metrics sk y_true preds model_name w = (Inr u, w')"
  shows "\<exists>a p r f. scores sk y_true preds = [Inr a, Inr p, Inr r, Inr f]"
proof (cases model_name)
  case None
  show ?thesis
    using assms four_prints_Inr [of "format sk" _ "accuracy_score sk y_true preds" w
        _ "precision_score sk y_true preds" _ "recall_score sk y_true preds"
        _ "f1_score sk y_true preds" "()" "py_print [[CHR 0x0A, CHR 0x0A]]" u w']
    unfolding print_metrics_def None option.case scores_def by blast
next
  case (Some name)
  show ?thesis
    using assms four_prints_Inr [of "format sk" _ "accuracy_score sk y_true preds" w
        _ "precision_score sk y_true preds" _ "recall_score sk y_true preds"
        _ "f1_score sk y_true preds" "()" "py_print [[CHR 0x0A, CHR 0x0A]]" u w']
    unfolding print_metrics_def Some option.case scores_def by blast
qed

text \<open>What a returned call of \<open>print_metrics\<close> has printed, whatever the model name.\<close>

lemma print_metrics_printed:
  assumes "print_metrics sk y_true preds model_name w = (Inr u, w')"
  shows "\<exists>v out. scores sk y_true preds = map Inr v \<and> length v = 4
    \<and> printed w' = printed w @ out
    \<and> map length out = [2, 2, 2, 2, 1]
    \<and> map last (take 4 out) = map (format sk) v
    \<and> map last (filter (\<lambda>call. length call = 2) out) = map (format sk) v"
proof -
  obtain a p r f where m: "scores sk y_true preds = [Inr a, Inr p, Inr r, Inr f]"
    using print_metrics_Inr [OF assms] by blast
  have v: "scores sk y_true preds = map Inr [a, p, r, f]" "length [a, p, r, f] = 4"
    using m by simp_all
  show ?thesis
  proof (cases model_name)
    case None
    define out where "out =
         [[''Accuracy score: '', format sk a], [''Precision score: '', format sk p],
          [''Recall score: '', format sk r], [''F1 score: '', format sk f],
          [[CHR 0x0A, CHR 0x0A]]]"
    have "printed w' = printed w @ out"
      using assms print_metrics_returns(1) [OF m, of w] unfolding None out_def by auto
    then show ?thesis
      using v by (intro exI [of _ "[a, p, r, f]"] exI [of _ out] conjI) (simp_all add: out_def)
  next
    case (Some name)
    define out where "out =
         [[''Accuracy score for '' @ name @ '' :'', format sk a],
          [''Precision score '' @ name @ '' :'', format sk p],
          [''Recall score '' @ name @ '' :'', format sk r],
          [''F1 score '' @ name @ '' :'', format sk f],
          [[CHR 0x0A, CHR 0x0A]]]"
    have "printed w' = printed w @ out"
      using assms print_metrics_returns(2) [OF m, of name w] unfolding Some out_def by auto
    then show ?thesis
      using v by (intro exI [of _ "[a, p, r, f]"] exI [of _ out] conjI) (simp_all add: out_def)
  qed
qed

text \<open>
  The model name changes the labels only: the result and the printed values are the same
  with and without it, also when a metric raises.
\<close>

lemma print_metrics_model_name:
  "fst (print_metrics sk y_true preds (Some name) w) = fst (print_metrics sk y_true preds None w)"
  "map last (printed (snd (print_metrics sk y_true preds (Some name) w))) =
     map last (printed (snd (print_metrics sk y_true preds None w)))"
  by (cases "accuracy_score sk y_true preds"; cases "precision_score sk y_true preds";
      cases "recall_score sk y_true preds"; cases "f1_score sk y_true preds";
      simp add: print_metrics_def and_then_def print_score_def py_print_def)+

lemma regularization_reads:
  "reads (snd (regularization_notebook rd lasso_fit w)) =
     reads w @ [(''testData/regularizationData.csv'', CHR '','')]"
  by (simp add: regularization_notebook_def pd_read_csv_def Let_def split: sum.splits)

lemma spam_cell_naive_bayes_reads:
  "reads (snd (spam_cell_naive_bayes rd sk w)) =
     reads w @ [(''Data/SMSSpamCollection'', CHR 0x09)]"
  unfolding spam_cell_naive_bayes_def pd_read_table_def
  by (simp add: Let_def and_then_reads print_score_reads split: sum.splits prod.splits)

lemma spam_cells_ensembles_reads: "reads (snd (spam_cells_ensembles sk s w)) = reads w"
  unfolding spam_cells_ensembles_def Let_def
  by (intro and_then_reads) (simp_all add: print_metrics_reads)

lemma spam_reads:
  "reads (snd (spam_notebook rd sk w)) = reads w @ [(''Data/SMSSpamCollection'', CHR 0x09)]"
proof (cases "spam_cell_naive_bayes rd sk w")
  case (Pair res w1)
  have w1: "reads w1 = reads w @ [(''Data/SMSSpamCollection'', CHR 0x09)]"
    using spam_cell_naive_bayes_reads [of rd sk w] Pair by simp
  show ?thesis
    using w1 by (cases res) (simp_all add: spam_notebook_def Pair spam_cells_ensembles_reads)
qed

lemma regularization_columns:
  assumes "rd ''testData/regularizationData.csv'' CHR '','' = Inr train_data"
    and "\<forall>row\<in>set train_data. length row = 7"
  shows "\<exists>r w'. regularization_notebook rd lasso_fit w = (Inr r, w')
    \<and> X_frame r = map (take 6) train_data
    \<and> y_series r = map (\<lambda>row. row ! 6) train_data"
proof -
  have nonempty: "\<not> (\<exists>row\<in>set train_data. row = [])"
    using assms(2) by auto
  have "map butlast train_data = map (take 6) train_data"
    using assms(2) by (intro map_cong) (simp_all add: butlast_conv_take)
  moreover have "map last train_data = map (\<lambda>row. row ! 6) train_data"
  proof (rule map_cong [OF refl])
    fix row assume "row \<in> set train_data"
    then have "length row = 7" using assms(2) by simp
    then show "last row = row ! 6"
      by (cases row rule: rev_cases) (simp_all add: nth_append)
  qed
  ultimately show ?thesis
    using assms(1) nonempty
    by (simp add: regularization_notebook_def pd_read_csv_def Let_def iloc_last_def
        iloc_all_but_last_def)
qed

subsection \<open>The runs of the spam notebook that return\<close>

lemma and_then_Inr:
  "and_then r f = (Inr x, w') \<longleftrightarrow> (\<exists>w1. r = (Inr (), w1) \<and> f w1 = (Inr x, w'))"
  by (cases r; cases "fst r") (auto simp: and_then_def)

lemma map_label_columns:
  "map snd (map (\<lambda>(label, sms_message). (map_label label, sms_message)) df0) = map snd df0"
  "map fst (map (\<lambda>(label, sms_message). (map_label label, sms_message)) df0) =
     map (\<lambda>row. map_label (fst row)) df0"
  by (induction df0) auto

lemma spam_cell_naive_bayes_unfold:
  assumes "rd ''Data/SMSSpamCollection'' (CHR 0x09) = Inr df0"
    and "train_test_split sk (map snd df0) (map (\<lambda>row. map_label (fst row)) df0) 1 =
        (X_train, X_test, ytr, yte)"
    and "fit_transform sk X_train = (cv, td)"
  shows "spam_cell_naive_bayes rd sk w =
     and_then (print_score (format sk) ''Accuracy score: ''
        (accuracy_score sk yte
          (predict sk (fit sk MultinomialNB td ytr) (transform sk cv X_test)))
        (w\<lparr>reads := reads w @ [(''Data/SMSSpamCollection'', CHR 0x09)]\<rparr>)) (\<lambda>w.
     and_then (print_score (format sk) ''Precision score: ''
        (precision_score sk yte
          (predict sk (fit sk MultinomialNB td ytr) (transform sk cv X_test))) w) (\<lambda>w.
     and_then (print_score (format sk) ''Recall score: ''
        (recall_score sk yte
          (predict sk (fit sk MultinomialNB td ytr) (transform sk cv X_test))) w) (\<lambda>w.
     and_then (print_score (format sk) ''F1 score: ''
        (f1_score sk yte
          (predict sk (fit sk MultinomialNB td ytr) (transform sk cv X_test))) w) (\<lambda>w.
       (Inr \<lparr>y_test = yte, training_data = td, testing_data = transform sk cv X_test,
              y_train = ytr,
              predictions = predict sk (fit sk MultinomialNB td ytr) (transform sk cv X_test),
              bagging_pred = [], random_pred = [], ada_pred = []\<rparr>, w)))))"
  unfolding spam_cell_naive_bayes_def pd_read_table_def Let_def map_label_columns
  by (simp only: assms prod.case sum.case)

lemma spam_cell_naive_bayes_Inr:
  assumes "spam_cell_naive_bayes rd sk w = (Inr s, w')"
  shows "\<exists>df0 X_train X_test cv a p r f.
      rd ''Data/SMSSpamCollection'' (CHR 0x09) = Inr df0
    \<and> train_test_split sk (map snd df0) (map (\<lambda>row. map_label (fst row)) df0) 1 =
        (X_train, X_test, y_train s, y_test s)
    \<and> fit_transform sk X_train = (cv, training_data s)
    \<and> testing_data s = transform sk cv X_test
    \<and> predictions s =
        predict sk (fit sk MultinomialNB (training_data s) (y_train s)) (testing_data s)
    \<and> scores sk (y_test s) (predictions s) = [Inr a, Inr p, Inr r, Inr f]
    \<and> printed w' = printed w @
        [[''Accuracy score: '', format sk a], [''Precision score: '', format sk p],
         [''Recall score: '', format sk r], [''F1 score: '', format sk f]]"
proof -
  obtain df0 where rd: "rd ''Data/SMSSpamCollection'' (CHR 0x09) = Inr df0"
    using assms
    by (cases "rd ''Data/SMSSpamCollection'' (CHR 0x09)")
      (simp_all add: spam_cell_naive_bayes_def pd_read_table_def)
  obtain X_train X_test ytr yte where split:
    "train_test_split sk (map snd df0) (map (\<lambda>row. map_label (fst row)) df0) 1 =
       (X_train, X_test, ytr, yte)"
    using prod_cases4 by blast
  obtain cv td where ft: "fit_transform sk X_train = (cv, td)"
    by (cases "fit_transform sk X_train")
  define w0 where "w0 = w\<lparr>reads := reads w @ [(''Data/SMSSpamCollection'', CHR 0x09)]\<rparr>"
  define preds where "preds = predict sk (fit sk MultinomialNB td ytr) (transform sk cv X_test)"
  define s0 where "s0 = \<lparr>y_test = yte, training_data = td, testing_data = transform sk cv X_test,
     y_train = ytr, predictions = preds, bagging_pred = [], random_pred = [], ada_pred = []\<rparr>"
  have run: "spam_cell_naive_bayes rd sk w =
     and_then (print_score (format sk) ''Accuracy score: '' (accuracy_score sk yte preds) w0) (\<lambda>w.
     and_then (print_score (format sk) ''Precision score: '' (precision_score sk yte preds) w) (\<lambda>w.
     and_then (print_score (format sk) ''Recall score: '' (recall_score sk yte preds) w) (\<lambda>w.
     and_then (print_score (format sk) ''F1 score: '' (f1_score sk yte preds) w) (\<lambda>w.
       (Inr s0, w)))))"
    unfolding spam_cell_naive_bayes_unfold [where rd = rd, OF rd split ft] w0_def preds_def s0_def ..
  note ret = assms [unfolded run]
  obtain a p r f where m:
    "[accuracy_score sk yte preds, precision_score sk yte preds, recall_score sk yte preds,
      f1_score sk yte preds] = [Inr a, Inr p, Inr r, Inr f]"
    and s: "s = s0"
    and w': "w' = w0\<lparr>printed := printed w0 @
        [[''Accuracy score: '', format sk a], [''Precision score: '', format sk p],
         [''Recall score: '', format sk r], [''F1 score: '', format sk f]]\<rparr>"
    using four_prints_Inr [where k = "\<lambda>w. w", OF ret] by auto
  show ?thesis
    using rd split ft m
    by (intro exI [of _ df0] exI [of _ X_train] exI [of _ X_test] exI [of _ cv]
        exI [of _ a] exI [of _ p] exI [of _ r] exI [of _ f])
      (simp add: s w' s0_def w0_def preds_def scores_def)
qed

lemma spam_cells_ensembles_Inr:
  assumes "spam_cells_ensembles sk s0 w = (Inr s, w')"
  shows "s = s0\<lparr>
        bagging_pred :=
          predict sk (fit sk (BaggingClassifier 200) (training_data s0) (y_train s0))
            (testing_data s0),
        random_pred :=
          predict sk (fit sk (RandomForestClassifier 200) (training_data s0) (y_train s0))
            (testing_data s0),
        ada_pred :=
          predict sk (fit sk (AdaBoostClassifier 300 0.2) (training_data s0) (y_train s0))
            (testing_data s0)\<rparr>"
    and "\<exists>vs. map (scores sk (y_test s0)) [bagging_pred s, random_pred s, ada_pred s, predictions s0]
          = map (map Inr) vs
      \<and> list_all (\<lambda>v. length v = 4) vs
      \<and> map last (filter (\<lambda>call. length call = 2) (drop (length (printed w)) (printed w')))
          = map (format sk) (concat vs)"
    and "\<exists>out. printed w' = printed w @ out"
proof -
  define s1 where "s1 = s0\<lparr>
        bagging_pred :=
          predict sk (fit sk (BaggingClassifier 200) (training_data s0) (y_train s0))
            (testing_data s0),
        random_pred :=
          predict sk (fit sk (RandomForestClassifier 200) (training_data s0) (y_train s0))
            (testing_data s0),
        ada_pred :=
          predict sk (fit sk (AdaBoostClassifier 300 0.2) (training_data s0) (y_train s0))
            (testing_data s0)\<rparr>"
  have "spam_cells_ensembles sk s0 w =
     and_then (print_metrics sk (y_test s1) (bagging_pred s1) (Some ''bagging'') w) (\<lambda>w.
     and_then (print_metrics sk (y_test s1) (random_pred s1) (Some ''Random Forest'') w) (\<lambda>w.
     and_then (print_metrics sk (y_test s1) (ada_pred s1) (Some ''AdaBoost'') w) (\<lambda>w.
     and_then (print_metrics sk (y_test s1) (predictions s1) (Some ''Naive Bayes'') w) (\<lambda>w.
       (Inr s1, w)))))"
    unfolding spam_cells_ensembles_def Let_def s1_def ..
  with assms obtain w1 w2 w3 where
        1: "print_metrics sk (y_test s1) (bagging_pred s1) (Some ''bagging'') w = (Inr (), w1)"
    and 2: "print_metrics sk (y_test s1) (random_pred s1) (Some ''Random Forest'') w1 = (Inr (), w2)"
    and 3: "print_metrics sk (y_test s1) (ada_pred s1) (Some ''AdaBoost'') w2 = (Inr (), w3)"
    and 4: "print_metrics sk (y_test s1) (predictions s1) (Some ''Naive Bayes'') w3 = (Inr (), w')"
    and s: "s = s1"
    by (auto simp: and_then_Inr)
  show "s = s0\<lparr>
        bagging_pred :=
          predict sk (fit sk (BaggingClassifier 200) (training_data s0) (y_train s0))
            (testing_data s0),
        random_pred :=
          predict sk (fit sk (RandomForestClassifier 200) (training_data s0) (y_train s0))
            (testing_data s0),
        ada_pred :=
          predict sk (fit sk (AdaBoostClassifier 300 0.2) (training_data s0) (y_train s0))
            (testing_data s0)\<rparr>"
    using s by (simp add: s1_def)
  obtain v1 o1 where v1: "scores sk (y_test s1) (bagging_pred s1) = map Inr v1" "length v1 = 4"
      "printed w1 = printed w @ o1"
      "map last (filter (\<lambda>call. length call = 2) o1) = map (format sk) v1"
    using print_metrics_printed [OF 1] by blast
  obtain v2 o2 where v2: "scores sk (y_test s1) (random_pred s1) = map Inr v2" "length v2 = 4"
      "printed w2 = printed w1 @ o2"
      "map last (filter (\<lambda>call. length call = 2) o2) = map (format sk) v2"
    using print_metrics_printed [OF 2] by blast
  obtain v3 o3 where v3: "scores sk (y_test s1) (ada_pred s1) = map Inr v3" "length v3 = 4"
      "printed w3 = printed w2 @ o3"
      "map last (filter (\<lambda>call. length call = 2) o3) = map (format sk) v3"
    using print_metrics_printed [OF 3] by blast
  obtain v4 o4 where v4: "scores sk (y_test s1) (predictions s1) = map Inr v4" "length v4 = 4"
      "printed w' = printed w3 @ o4"
      "map last (filter (\<lambda>call. length call = 2) o4) = map (format sk) v4"
    using print_metrics_printed [OF 4] by blast
  have out: "drop (length (printed w)) (printed w') = o1 @ o2 @ o3 @ o4"
    by (simp add: v1(3) v2(3) v3(3) v4(3))
  have same: "y_test s1 = y_test s0" "predictions s1 = predictions s0"
    by (simp_all add: s1_def)
  show "\<exists>out. printed w' = printed w @ out"
    by (simp add: v1(3) v2(3) v3(3) v4(3))
  show "\<exists>vs. map (scores sk (y_test s0)) [bagging_pred s, random_pred s, ada_pred s, predictions s0]
          = map (map Inr) vs
      \<and> list_all (\<lambda>v. length v = 4) vs
      \<and> map last (filter (\<lambda>call. length call = 2) (drop (length (printed w)) (printed w')))
          = map (format sk) (concat vs)"
    unfolding out s
    using v1(1,2,4) v2(1,2,4) v3(1,2,4) v4(1,2,4) same
    by (intro exI [of _ "[v1, v2, v3, v4]"]) simp
qed

lemma spam_notebook_Inr:
  assumes "spam_notebook rd sk w = (Inr s, w')"
  shows "\<exists>s0 w0. spam_cell_naive_bayes rd sk w = (Inr s0, w0)
    \<and> spam_cells_ensembles sk s0 w0 = (Inr s, w')"
proof (cases "spam_cell_naive_bayes rd sk w")
  case (Pair res w0)
  with assms show ?thesis
    by (cases res) (simp_all add: spam_notebook_def)
qed

text \<open>The notebook runs to its end when the file is read and the metrics return.\<close>

lemma spam_notebook_returns:
  assumes rd: "rd ''Data/SMSSpamCollection'' (CHR 0x09) = Inr df"
    and split: "train_test_split sk (map snd df) (map (\<lambda>row. map_label (fst row)) df) 1 =
        (X_train, X_test, ytr, yte)"
    and total: "\<And>preds. \<exists>a p r f. scores sk yte preds = [Inr a, Inr p, Inr r, Inr f]"
  shows "\<exists>s w'. spam_notebook rd sk w = (Inr s, w')"
proof -
  obtain cv td where ft: "fit_transform sk X_train = (cv, td)"
    by (cases "fit_transform sk X_train")
  define preds where "preds = predict sk (fit sk MultinomialNB td ytr) (transform sk cv X_test)"
  obtain a p r f where m:
    "[accuracy_score sk yte preds, precision_score sk yte preds, recall_score sk yte preds,
      f1_score sk yte preds] = [Inr a, Inr p, Inr r, Inr f]"
    using total [of preds] unfolding scores_def by blast
  obtain s0 w0 where nb: "spam_cell_naive_bayes rd sk w = (Inr s0, w0)" and yt: "y_test s0 = yte"
    unfolding spam_cell_naive_bayes_unfold [where rd = rd, OF rd split ft] preds_def [symmetric]
      four_prints_returns [OF m]
    by simp
  have pm: "\<exists>w1. print_metrics sk yte q (Some name) w = (Inr (), w1)" for q name w
    using total [of q] print_metrics_returns(2) [of sk yte q _ _ _ _ name w] by blast
  obtain w1 where 1: "print_metrics sk yte
      (predict sk (fit sk (BaggingClassifier 200) (training_data s0) (y_train s0))
        (testing_data s0)) (Some ''bagging'') w0 = (Inr (), w1)"
    using pm by blast
  obtain w2 where 2: "print_metrics sk yte
      (predict sk (fit sk (RandomForestClassifier 200) (training_data s0) (y_train s0))
        (testing_data s0)) (Some ''Random Forest'') w1 = (Inr (), w2)"
    using pm by blast
  obtain w3 where 3: "print_metrics sk yte
      (predict sk (fit sk (AdaBoostClassifier 300 0.2) (training_data s0) (y_train s0))
        (testing_data s0)) (Some ''AdaBoost'') w2 = (Inr (), w3)"
    using pm by blast
  obtain w4 where 4: "print_metrics sk yte (predictions s0) (Some ''Naive Bayes'') w3 = (Inr (), w4)"
    using pm by blast
  have "\<exists>s w'. spam_cells_ensembles sk s0 w0 = (Inr s, w')"
    unfolding spam_cells_ensembles_def Let_def
    using 1 2 3 4 by (simp add: yt and_then_def)
  then show ?thesis
    by (simp add: spam_notebook_def nb)
qed

subsection \<open>The calls of the training loop\<close>








lemma train_epoch_empty:
  assumes "trainloader e = []"
  shows "train_epoch th trainloader s e = Inl ZeroDivisionError"
  using assms by (simp add: train_epoch_def Let_def)


lemma train_empty_loader:
  assumes "trainloader 0 = []"
  shows "train th trainloader s = Inl ZeroDivisionError"
proof -
  have "[0..<epochs] = 0 # [1..<epochs]"
    by (simp add: epochs_def upt_rec)
  then show ?thesis
    using assms by (simp add: train_def train_epoch_empty)
qed


section \<open>Labels as int64 and probabilities as float64\<close>

subsection \<open>Labels as int64\<close>

lemma wrap_int64_id:
  assumes "in_int64 k"
  shows "wrap_int64 k = k"
proof -
  have "0 \<le> k + 2 ^ 63" and "k + 2 ^ 63 < 2 ^ 64"
    using assms by (simp_all add: in_int64_def)
  then have "(k + 2 ^ 63) mod 2 ^ 64 = k + 2 ^ 63"
    by (rule mod_pos_pos_trivial)
  then show ?thesis by (simp add: wrap_int64_def)
qed

lemma int64_sub_one:
  assumes "- (2 ^ 63) + 2 \<le> k" and "k < 2 ^ 63"
  shows "int64_sub 1 k = 1 - k"
  unfolding int64_sub_def using assms by (intro wrap_int64_id) (simp add: in_int64_def)

lemma np_int_in_range:
  assumes "list_all no_wrap Y"
  shows "np_int Y = Inr (map np_trunc Y)"
proof -
  have "list_all (\<lambda>y. in_int64 (np_trunc y)) Y"
    using assms by (auto simp: list_all_iff no_wrap_def in_int64_def)
  then show ?thesis by (simp add: np_int_def)
qed

lemma np_broadcast_fst:
  assumes "np_broadcast xs ys = Inr zs" and "z \<in> set zs"
  shows "fst z \<in> set xs"
proof (cases "length xs = length ys")
  case True
  with assms show ?thesis
    by (cases z) (auto simp: np_broadcast_def dest: set_zip_leftD)
next
  case neq: False
  show ?thesis
  proof (cases "length xs = 1")
    case True
    then obtain x where "xs = [x]" by (auto simp: length_one_conv)
    with assms neq show ?thesis
      by (cases z) (auto simp: np_broadcast_def dest: set_zip_leftD)
  next
    case False
    with assms neq show ?thesis
      by (cases z) (auto simp: np_broadcast_def dest: set_zip_leftD split: if_splits)
  qed
qed

lemma cross_entropy_via_m:
  assumes "list_all no_wrap Y"
  shows "cross_entropy Y P = m_cross_entropy (map (\<lambda>y. of_int (np_trunc y)) Y) P"
proof (cases "np_broadcast (map np_trunc Y) P")
  case (Inl e)
  then show ?thesis
    using np_broadcast_map [of real_of_int "map np_trunc Y" "\<lambda>p. p" P]
    by (simp add: cross_entropy_def m_cross_entropy_def np_int_in_range [OF assms]
        map_np_float np_float_def comp_def)
next
  case (Inr zs)
  have wr: "int64_sub 1 k = 1 - k" if "(k, p) \<in> set zs" for k p
  proof -
    have "fst (k, p) \<in> set (map np_trunc Y)"
      using Inr that by (rule np_broadcast_fst)
    then obtain y where "y \<in> set Y" "k = np_trunc y" by auto
    then show ?thesis
      using assms by (intro int64_sub_one) (auto simp: list_all_iff no_wrap_def)
  qed
  have eq: "map (\<lambda>(y, p). np_add (np_mul (Fin (of_int y)) (np_log p))
            (np_mul (Fin (of_int (int64_sub 1 y))) (np_log (1 - p)))) zs
      = map (\<lambda>(y, p). np_add (np_mul (Fin (of_int y)) (np_log p))
            (np_mul (Fin (1 - of_int y)) (np_log (1 - p)))) zs"
    by (rule map_cong [OF refl]) (auto simp: wr)
  have ce: "cross_entropy Y P = Inr (np_neg (np_sum (map (\<lambda>(y, p).
      np_add (np_mul (Fin (of_int y)) (np_log p))
             (np_mul (Fin (of_int (int64_sub 1 y))) (np_log (1 - p)))) zs)))"
    using Inr
    by (simp add: cross_entropy_def np_int_in_range [OF assms] map_np_float)
  have m: "m_cross_entropy (map (\<lambda>y. of_int (np_trunc y)) Y) P = Inr (np_neg (np_sum (map (\<lambda>(y, p).
      np_add (np_mul (Fin (of_int y)) (np_log p))
             (np_mul (Fin (1 - of_int y)) (np_log (1 - p)))) zs)))"
    using Inr np_broadcast_map [of real_of_int "map np_trunc Y" "\<lambda>p. p" P]
    by (simp add: m_cross_entropy_def map_np_float np_float_def comp_def np_sum_scalar_id
        case_prod_unfold)
  show ?thesis
    by (simp only: ce m eq)
qed

lemma binary_labels_no_wrap:
  assumes "set Y \<subseteq> {0, 1}"
  shows "list_all no_wrap Y" and "map (\<lambda>y. of_int (np_trunc y)) Y = Y"
proof -
  show "list_all no_wrap Y"
    using assms by (auto simp: list_all_iff no_wrap_def np_trunc_def)
  show "map (\<lambda>y. of_int (np_trunc y)) Y = Y"
    using assms by (intro map_idI) (auto simp: np_trunc_def)
qed

lemma cross_entropy_binary_labels:
  assumes "set Y \<subseteq> {0, 1}"
  shows "cross_entropy Y P = m_cross_entropy Y P"
  using binary_labels_no_wrap [OF assms] by (simp add: cross_entropy_via_m)

lemma cross_entropy_finite:
  assumes "length Y = length P"
    and "set Y \<subseteq> {0, 1}"
    and "\<forall>j<length P. 0 < P ! j \<and> P ! j < 1"
  shows "cross_entropy Y P = Inr (Fin (binary_formula Y P))"
  using assms by (simp add: cross_entropy_binary_labels m_cross_entropy_finite)

lemma cross_entropy_example1:
  "cross_entropy [1, 0, 1, 1] [0.4, 0.6, 0.1, 0.5] = Inr (Fin (ln 125))"
proof -
  have "cross_entropy [1, 0, 1, 1] [0.4, 0.6, 0.1, 0.5]
    = Inr (Fin (binary_formula [1, 0, 1, 1] [0.4, 0.6, 0.1, 0.5]))"
    by (rule cross_entropy_finite) (simp_all add: nth_Cons' less_Suc_eq numeral_eq_Suc)
  then show ?thesis
    by (simp only: binary_formula_example1)
qed

subsection \<open>Rounding to float64\<close>

lemma round64_binade:
  assumes lo: "2 powr of_int e \<le> \<bar>x\<bar>"
    and hi: "\<bar>x\<bar> < 2 powr of_int (e + 1)"
    and e: "- 1022 \<le> e"
  shows "round64 x = of_int (round_half_even (x / 2 powr of_int (e - 52))) * 2 powr of_int (e - 52)"
proof -
  have pos: "0 < \<bar>x\<bar>"
    using lo powr_gt_zero [of 2 "of_int e"] by linarith
  have "\<lfloor>log 2 \<bar>x\<bar>\<rfloor> = e"
    using pos lo hi by (subst floor_log_eq_powr_iff) simp_all
  then have "float64_exponent x = e"
    using e by (simp add: float64_exponent_def)
  moreover have "x \<noteq> 0" using pos by auto
  ultimately show ?thesis
    by (simp add: round64_def Let_def)
qed

lemma round_half_even_of_int: "round_half_even (of_int n) = n"
  by (simp add: round_half_even_def Let_def)

lemma round_half_even_above:
  assumes "of_int n - 1 / 2 < x" and "x < of_int n"
  shows "round_half_even x = n"
proof -
  have "\<lfloor>x\<rfloor> = n - 1"
    using assms by (intro floor_unique) simp_all
  then show ?thesis
    using assms by (simp add: round_half_even_def Let_def)
qed

lemma powr_m53: "2 powr of_int (- 1 - 52) = (1 / 2 ^ 53 :: real)"
proof -
  have "(2 :: real) powr of_int (- 1 - 52) = 2 powr (- real 53)"
    by simp
  also have "\<dots> = 1 / 2 powr real 53"
    by (rule powr_minus_divide)
  also have "2 powr real 53 = (2 :: real) ^ 53"
    by (rule powr_realpow) simp
  finally show ?thesis .
qed

lemma float64_sub_tiny: "float64_sub 1 (1 / 2 ^ 60) = 1"
proof -
  let ?x = "1 - 1 / 2 ^ 60 :: real"
  have "round64 ?x = of_int (round_half_even (?x / 2 powr of_int (- 1 - 52))) * 2 powr of_int (- 1 - 52)"
    by (rule round64_binade) (simp_all add: powr_minus_divide)
  also have "?x / 2 powr of_int (- 1 - 52) = 2 ^ 53 - 1 / 2 ^ 7"
    by (simp only: powr_m53) simp
  also have "round_half_even (2 ^ 53 - 1 / 2 ^ 7) = 2 ^ 53"
    by (rule round_half_even_above) simp_all
  finally show ?thesis
    by (simp only: float64_sub_def powr_m53) simp
qed

lemma round64_exact:
  assumes "x = of_int n * 2 powr of_int (e - 52)"
    and "2 powr of_int e \<le> \<bar>x\<bar>"
    and "\<bar>x\<bar> < 2 powr of_int (e + 1)"
    and "- 1022 \<le> e"
  shows "round64 x = x"
proof -
  have "x / 2 powr of_int (e - 52) = of_int n"
    using assms(1) by simp
  then show ?thesis
    using round64_binade [OF assms(2,3,4)] assms(1) by (simp add: round_half_even_of_int)
qed

lemma is_float64_quarter: "is_float64 0.25"
  unfolding is_float64_def
  by (rule round64_exact [of _ "2 ^ 52" "- 2"]) (simp_all add: powr_minus_divide)

lemma is_float64_three_quarters: "is_float64 0.75"
  unfolding is_float64_def
  by (rule round64_exact [of _ "3 * 2 ^ 51" "- 1"]) (simp_all add: powr_minus_divide)

lemma is_float64_tiny: "is_float64 (1 / 2 ^ 60)"
  unfolding is_float64_def
  by (rule round64_exact [of _ "2 ^ 52" "- 60"]) (simp_all add: powr_minus_divide)

lemma float64_sub_quarter: "float64_sub 1 0.25 = 0.75" "float64_sub 1 0.75 = 0.25"
  using is_float64_quarter is_float64_three_quarters
  by (simp_all add: float64_sub_def is_float64_def)



subsection \<open>Values at the endpoints and beyond the int64 range\<close>

lemma cross_entropy_zero_one: "cross_entropy [0] [1] = Inr PInf"
  by (simp add: cross_entropy_def np_int_def np_trunc_def in_int64_def np_broadcast_def
      np_float_def np_sum_def np_log_def int64_sub_def wrap_int64_def signed_inf_def)

lemma cross_entropy_one_tiny: "cross_entropy [1] [1 / 2 ^ 60] = Inr (Fin (60 * ln 2))"
proof -
  have "cross_entropy [1] [1 / 2 ^ 60] = Inr (Fin (binary_formula [1] [1 / 2 ^ 60]))"
    by (rule cross_entropy_finite) simp_all
  moreover have "binary_formula [1] [1 / 2 ^ 60] = 60 * ln 2"
    using ln_realpow [of 2 60] by (simp add: binary_formula_def bce_term_def ln_div)
  ultimately show ?thesis by simp
qed








lemma np_trunc_one [simp]: "np_trunc 1 = 1" "np_trunc 0 = 0"
  by (simp_all add: np_trunc_def)




section \<open>The claims about cross-entropy\<close>

text \<open>
  C1. On \<open>Y = [1, 0, 1, 1]\<close> and \<open>P = [0.4, 0.6, 0.1, 0.5]\<close> the binary function
  \<open>cross_entropy\<close> returns a finite float, whose exact value is \<open>ln 125\<close>, and that value
  agrees with the printed \<open>4.828313737302301\<close> to within \<open>10\<^sup>-\<^sup>1\<^sup>5\<close>.
\<close>

theorem cross_entropy_value_C1:
  "cross_entropy [1, 0, 1, 1] [0.4, 0.6, 0.1, 0.5] = Inr (Fin (ln 125))
   \<and> \<bar>ln 125 - 4.828313737302301\<bar> < (1 / 10 ^ 15 :: real)"
  using cross_entropy_example1 ln_125_value by (rule conjI)

text \<open>
  C2. For equal-length lists \<open>Y\<close> and \<open>P\<close> with every label 0 or 1, the multi-class
  variant \<open>m_cross_entropy\<close> returns what the binary variant \<open>cross_entropy\<close> returns; on
  the example of the notebook both return \<open>ln 125\<close>, which is \<open>4.828313737302301\<close> to
  within \<open>10\<^sup>-\<^sup>1\<^sup>5\<close>.
\<close>

theorem binary_labels_agree_C2:
  "(length Y = length P \<and> set Y \<subseteq> {0, 1} \<longrightarrow> m_cross_entropy Y P = cross_entropy Y P)
   \<and> m_cross_entropy [1, 0, 1, 1] [0.4, 0.6, 0.1, 0.5] = Inr (Fin (ln 125))
   \<and> cross_entropy [1, 0, 1, 1] [0.4, 0.6, 0.1, 0.5] = Inr (Fin (ln 125))
   \<and> \<bar>ln 125 - 4.828313737302301\<bar> < (1 / 10 ^ 15 :: real)"
proof -
  have gen: "m_cross_entropy Y P = cross_entropy Y P" if "set Y \<subseteq> {0, 1}" for Y P
    using that by (simp add: cross_entropy_binary_labels)
  have "m_cross_entropy [1, 0, 1, 1] [0.4, 0.6, 0.1, 0.5]
      = cross_entropy [1, 0, 1, 1] [0.4, 0.6, 0.1, 0.5]"
    by (rule gen) simp
  then show ?thesis
    using gen [of Y P] cross_entropy_example1 ln_125_value by simp
qed

theorem binary_labels_agree_C2_witness:
  "length [1, 0 :: real] = length [0.3, 0.7 :: real] \<and> set [1, 0 :: real] \<subseteq> {0, 1}
   \<and> m_cross_entropy [1, 0] [0.3, 0.7] = cross_entropy [1, 0] [0.3, 0.7]"
  using binary_labels_agree_C2 [of "[1, 0]" "[0.3, 0.7]"] by simp

text \<open>
  C3, as stated, fails on float64 probabilities: the complement \<open>1 - p\<close> is a float64
  subtraction, and for \<open>p = 2\<^sup>-\<^sup>6\<^sup>0\<close> it is 1. On \<open>Y = [1]\<close>, \<open>P = [2\<^sup>-\<^sup>6\<^sup>0]\<close>, which lies
  strictly between 0 and 1, \<open>cross_entropy\<close> of the complements is \<open>cross_entropy [0] [1]\<close>,
  which is infinite, while \<open>cross_entropy Y P\<close> is \<open>60 ln 2\<close>.
\<close>

theorem complement_symmetry_C3_counterexample:
  "length [1 :: real] = length [1 / 2 ^ 60 :: real]
   \<and> set [1 :: real] \<subseteq> {0, 1}
   \<and> list_all (\<lambda>p. 0 < p \<and> p < 1 \<and> is_float64 p) [1 / 2 ^ 60 :: real]
   \<and> cross_entropy (map (\<lambda>y. 1 - y) [1]) (map (float64_sub 1) [1 / 2 ^ 60]) = Inr PInf
   \<and> cross_entropy [1] [1 / 2 ^ 60] = Inr (Fin (60 * ln 2))"
  using float64_sub_tiny is_float64_tiny cross_entropy_zero_one cross_entropy_one_tiny
  by simp

text \<open>
  C3, amended. For equal-length lists \<open>Y\<close> with every label 0 or 1 and \<open>P\<close> of float64
  values strictly between 0 and 1 whose complements \<open>1 - p\<close> are float64 values too (so
  that the subtraction does not round), \<open>cross_entropy\<close> of the element-wise complements
  \<open>1 - Y\<close> and \<open>1 - P\<close> equals \<open>cross_entropy Y P\<close>.
\<close>

theorem exact_complement_symmetry_C3:
  assumes len: "length Y = length P"
    and lab: "set Y \<subseteq> {0, 1}"
    and unit: "\<forall>p\<in>set P. 0 < p \<and> p < 1 \<and> is_float64 p"
    and exact: "\<forall>p\<in>set P. float64_sub 1 p = 1 - p"
  shows "cross_entropy (map (\<lambda>y. 1 - y) Y) (map (float64_sub 1) P) = cross_entropy Y P"
proof -
  have P': "map (float64_sub 1) P = map (\<lambda>p. 1 - p) P"
    using exact by (intro map_cong) simp_all
  have lab': "set (map (\<lambda>y. 1 - y) Y) \<subseteq> {0, 1}"
    using lab by auto
  have 1: "cross_entropy Y P = Inr (Fin (binary_formula Y P))"
    using len lab unit by (intro cross_entropy_finite) simp_all
  have "cross_entropy (map (\<lambda>y. 1 - y) Y) (map (\<lambda>p. 1 - p) P)
      = Inr (Fin (binary_formula (map (\<lambda>y. 1 - y) Y) (map (\<lambda>p. 1 - p) P)))"
    using len lab' unit by (intro cross_entropy_finite) simp_all
  with 1 show ?thesis
    by (simp only: P' binary_formula_complement [OF len])
qed

theorem exact_complement_symmetry_C3_witness:
  "length [1, 0 :: real] = length [0.25, 0.75 :: real]
   \<and> set [1, 0 :: real] \<subseteq> {0, 1}
   \<and> list_all (\<lambda>p. 0 < p \<and> p < 1 \<and> is_float64 p) [0.25, 0.75 :: real]
   \<and> list_all (\<lambda>p. float64_sub 1 p = 1 - p) [0.25, 0.75 :: real]
   \<and> cross_entropy (map (\<lambda>y. 1 - y) [1, 0]) (map (float64_sub 1) [0.25, 0.75])
       = cross_entropy [1, 0] [0.25, 0.75]"
  using exact_complement_symmetry_C3 [of "[1, 0]" "[0.25, 0.75]"]
    is_float64_quarter is_float64_three_quarters float64_sub_quarter
  by simp




text \<open>
  C5. Cross-entropy is not zero at equality: there is a list \<open>V\<close> with entries strictly
  between 0 and 1 for which \<open>m_cross_entropy V V\<close> is a nonzero finite float; for
  \<open>V = [0.5]\<close> it is \<open>ln 2\<close>.
\<close>

theorem nonzero_at_equality_C5:
  "(\<exists>V. list_all (\<lambda>v. 0 < v \<and> v < 1) V \<and> (\<exists>r. m_cross_entropy V V = Inr (Fin r) \<and> r \<noteq> 0))
   \<and> m_cross_entropy [0.5] [0.5] = Inr (Fin (ln 2))"
proof -
  have "m_cross_entropy [0.5] [0.5] = Inr (Fin (binary_formula [0.5] [0.5]))"
    by (rule m_cross_entropy_finite) simp_all
  moreover have "binary_formula [0.5] [0.5] = ln 2"
    by (simp add: binary_formula_def bce_term_def ln_div)
  ultimately have v: "m_cross_entropy [0.5] [0.5] = Inr (Fin (ln 2))"
    by simp
  have "list_all (\<lambda>v. 0 < v \<and> v < 1) [0.5 :: real] \<and>
    (\<exists>r. m_cross_entropy [0.5] [0.5] = Inr (Fin r) \<and> r \<noteq> 0)"
    using v by simp
  then show ?thesis using v by blast
qed






section \<open>The claims about the notebooks\<close>

text \<open>
  C8, as stated, fails: \<open>print_metrics\<close> does not print the four scores on every
  invocation. With the default \<open>average='binary'\<close>, \<open>precision_score\<close> raises
  \<open>ValueError\<close> on labels of three classes; on \<open>y_true = preds = [0, 1, 2]\<close> the
  call prints the accuracy line and raises, so that no precision, recall or F1 score and
  no blank are printed.
\<close>

theorem four_metrics_C8_counterexample:
  "print_metrics
      \<lparr>train_test_split = \<lambda>X y r. (X, X, y, y), fit_transform = \<lambda>X. ((), X),
        transform = \<lambda>c X. X, fit = \<lambda>e f y. y, predict = \<lambda>m f. m,
        accuracy_score = \<lambda>a b. Inr (if a = b then 1 else 0),
        precision_score = \<lambda>a b. if 2 < length (remdups (a @ b)) then Inl ValueError else Inr 1,
        recall_score = \<lambda>a b. if 2 < length (remdups (a @ b)) then Inl ValueError else Inr 1,
        f1_score = \<lambda>a b. if 2 < length (remdups (a @ b)) then Inl ValueError else Inr 1,
        format = \<lambda>r. if r = 1 then ''1.0'' else ''0.0''\<rparr>
      [0, 1, 2 :: int] [0, 1, 2] None \<lparr>reads = [], printed = []\<rparr> =
     (Inl ValueError, \<lparr>reads = [], printed = [[''Accuracy score: '', ''1.0'']]\<rparr>)"
  by (simp add: print_metrics_def and_then_def print_score_def py_print_def)

text \<open>
  C8, amended. Whenever the four metric calls on \<open>y_true\<close> and \<open>preds\<close> return,
  \<open>print_metrics\<close> returns after five calls of \<open>print\<close>: four with a label and a value,
  which are the formatted accuracy, precision, recall and F1 score, in this order, and one
  blank; it returns in no other case. The model name changes the labels only: the result
  and the printed values are the same with and without it. A run of the spam notebook
  returns when the file is read and the metrics return on the held-out labels; a run that
  returns has read the file, split messages and mapped labels with \<open>random_state=1\<close>,
  vectorized, fitted naive Bayes, bagging (200 estimators), a random forest (200) and
  AdaBoost (300, learning rate 0.2) on the training part, and printed the four scores of
  each model's predictions on the test part against the held-out labels \<open>y_test\<close>: those
  of naive Bayes, then those of bagging, the random forest, AdaBoost and naive Bayes again.
\<close>

theorem four_metrics_when_returning_C8:
  "(scores sk y_true preds = [Inr a, Inr p, Inr r, Inr f] \<longrightarrow>
      print_metrics sk y_true preds None w =
        (Inr (), w\<lparr>printed := printed w @
           [[''Accuracy score: '', format sk a], [''Precision score: '', format sk p],
            [''Recall score: '', format sk r], [''F1 score: '', format sk f],
            [[CHR 0x0A, CHR 0x0A]]]\<rparr>)
    \<and> print_metrics sk y_true preds (Some name) w =
        (Inr (), w\<lparr>printed := printed w @
           [[''Accuracy score for '' @ name @ '' :'', format sk a],
            [''Precision score '' @ name @ '' :'', format sk p],
            [''Recall score '' @ name @ '' :'', format sk r],
            [''F1 score '' @ name @ '' :'', format sk f],
            [[CHR 0x0A, CHR 0x0A]]]\<rparr>))
   \<and> (print_metrics sk y_true preds model_name w = (Inr u, w1) \<longrightarrow>
        (\<exists>a p r f. scores sk y_true preds = [Inr a, Inr p, Inr r, Inr f]))
   \<and> fst (print_metrics sk y_true preds (Some name) w) =
       fst (print_metrics sk y_true preds None w)
   \<and> map last (printed (snd (print_metrics sk y_true preds (Some name) w))) =
       map last (printed (snd (print_metrics sk y_true preds None w)))
   \<and> (rd ''Data/SMSSpamCollection'' (CHR 0x09) = Inr df
        \<and> train_test_split sk' (map snd df) (map (\<lambda>row. map_label (fst row)) df) 1 =
            (X_train, X_test, ytr, yte)
        \<and> (\<forall>preds. \<exists>a p r f. scores sk' yte preds = [Inr a, Inr p, Inr r, Inr f]) \<longrightarrow>
      (\<exists>s w'. spam_notebook rd sk' wn = (Inr s, w')))
   \<and> (spam_notebook rd sk' wn = (Inr s, w') \<longrightarrow>
      (\<exists>df0 X_train X_test cv vs.
          rd ''Data/SMSSpamCollection'' (CHR 0x09) = Inr df0
        \<and> train_test_split sk' (map snd df0) (map (\<lambda>row. map_label (fst row)) df0) 1 =
            (X_train, X_test, y_train s, y_test s)
        \<and> fit_transform sk' X_train = (cv, training_data s)
        \<and> testing_data s = transform sk' cv X_test
        \<and> predictions s =
            predict sk' (fit sk' MultinomialNB (training_data s) (y_train s)) (testing_data s)
        \<and> bagging_pred s =
            predict sk' (fit sk' (BaggingClassifier 200) (training_data s) (y_train s))
              (testing_data s)
        \<and> random_pred s =
            predict sk' (fit sk' (RandomForestClassifier 200) (training_data s) (y_train s))
              (testing_data s)
        \<and> ada_pred s =
            predict sk' (fit sk' (AdaBoostClassifier 300 0.2) (training_data s) (y_train s))
              (testing_data s)
        \<and> map (scores sk' (y_test s))
            [predictions s, bagging_pred s, random_pred s, ada_pred s, predictions s] =
            map (map Inr) vs
        \<and> list_all (\<lambda>v. length v = 4) vs
        \<and> map last (filter (\<lambda>call. length call = 2)
              (drop (length (printed wn)) (printed w'))) = map (format sk') (concat vs)))"
proof -
  have nb: "\<exists>df0 X_train X_test cv vs.
          rd ''Data/SMSSpamCollection'' (CHR 0x09) = Inr df0
        \<and> train_test_split sk' (map snd df0) (map (\<lambda>row. map_label (fst row)) df0) 1 =
            (X_train, X_test, y_train s, y_test s)
        \<and> fit_transform sk' X_train = (cv, training_data s)
        \<and> testing_data s = transform sk' cv X_test
        \<and> predictions s =
            predict sk' (fit sk' MultinomialNB (training_data s) (y_train s)) (testing_data s)
        \<and> bagging_pred s =
            predict sk' (fit sk' (BaggingClassifier 200) (training_data s) (y_train s))
              (testing_data s)
        \<and> random_pred s =
            predict sk' (fit sk' (RandomForestClassifier 200) (training_data s) (y_train s))
              (testing_data s)
        \<and> ada_pred s =
            predict sk' (fit sk' (AdaBoostClassifier 300 0.2) (training_data s) (y_train s))
              (testing_data s)
        \<and> map (scores sk' (y_test s))
            [predictions s, bagging_pred s, random_pred s, ada_pred s, predictions s] =
            map (map Inr) vs
        \<and> list_all (\<lambda>v. length v = 4) vs
        \<and> map last (filter (\<lambda>call. length call = 2)
              (drop (length (printed wn)) (printed w'))) = map (format sk') (concat vs)"
    if run: "spam_notebook rd sk' wn = (Inr s, w')"
  proof -
    obtain s1 w1 where c1: "spam_cell_naive_bayes rd sk' wn = (Inr s1, w1)"
      and c2: "spam_cells_ensembles sk' s1 w1 = (Inr s, w')"
      using spam_notebook_Inr [OF run] by blast
    obtain df0 X_train X_test cv a p r f where
          rd: "rd ''Data/SMSSpamCollection'' (CHR 0x09) = Inr df0"
      and split: "train_test_split sk' (map snd df0) (map (\<lambda>row. map_label (fst row)) df0) 1 =
            (X_train, X_test, y_train s1, y_test s1)"
      and ft: "fit_transform sk' X_train = (cv, training_data s1)"
      and td: "testing_data s1 = transform sk' cv X_test"
      and pr: "predictions s1 =
            predict sk' (fit sk' MultinomialNB (training_data s1) (y_train s1)) (testing_data s1)"
      and m: "scores sk' (y_test s1) (predictions s1) = [Inr a, Inr p, Inr r, Inr f]"
      and out1: "printed w1 = printed wn @
        [[''Accuracy score: '', format sk' a], [''Precision score: '', format sk' p],
         [''Recall score: '', format sk' r], [''F1 score: '', format sk' f]]"
      using spam_cell_naive_bayes_Inr [OF c1] by blast
    note s = spam_cells_ensembles_Inr(1) [OF c2]
    obtain vs where vs: "map (scores sk' (y_test s1))
          [bagging_pred s, random_pred s, ada_pred s, predictions s1] = map (map Inr) vs"
        "list_all (\<lambda>v. length v = 4) vs"
        "map last (filter (\<lambda>call. length call = 2) (drop (length (printed w1)) (printed w')))
           = map (format sk') (concat vs)"
      using spam_cells_ensembles_Inr(2) [OF c2] by blast
    have same: "y_test s = y_test s1" "y_train s = y_train s1"
      "training_data s = training_data s1" "testing_data s = testing_data s1"
      "predictions s = predictions s1"
      by (simp_all add: s)
    have preds: "bagging_pred s =
            predict sk' (fit sk' (BaggingClassifier 200) (training_data s) (y_train s))
              (testing_data s)"
      "random_pred s =
            predict sk' (fit sk' (RandomForestClassifier 200) (training_data s) (y_train s))
              (testing_data s)"
      "ada_pred s =
            predict sk' (fit sk' (AdaBoostClassifier 300 0.2) (training_data s) (y_train s))
              (testing_data s)"
      by (simp_all add: s)
    obtain out2 where out2: "printed w' = printed w1 @ out2"
      using spam_cells_ensembles_Inr(3) [OF c2] by blast
    have drop: "drop (length (printed wn)) (printed w') =
        [[''Accuracy score: '', format sk' a], [''Precision score: '', format sk' p],
         [''Recall score: '', format sk' r], [''F1 score: '', format sk' f]]
        @ drop (length (printed w1)) (printed w')"
      by (simp add: out1 out2)
    have all: "map (scores sk' (y_test s))
            [predictions s, bagging_pred s, random_pred s, ada_pred s, predictions s] =
            map (map Inr) ([a, p, r, f] # vs)"
      using vs(1) m by (simp add: same)
    have len: "list_all (\<lambda>v. length v = 4) ([a, p, r, f] # vs)"
      using vs(2) by simp
    have vals: "map last (filter (\<lambda>call. length call = 2)
              (drop (length (printed wn)) (printed w'))) =
          map (format sk') (concat ([a, p, r, f] # vs))"
      unfolding drop by (simp add: vs(3))
    show ?thesis
      using rd split ft td pr preds all len vals
      unfolding same [symmetric]
      by (intro exI [of _ df0] exI [of _ X_train] exI [of _ X_test] exI [of _ cv]
          exI [of _ "[a, p, r, f] # vs"]) (simp only: simp_thms)
  qed
  have ret: "scores sk y_true preds = [Inr a, Inr p, Inr r, Inr f] \<longrightarrow>
      print_metrics sk y_true preds None w =
        (Inr (), w\<lparr>printed := printed w @
           [[''Accuracy score: '', format sk a], [''Precision score: '', format sk p],
            [''Recall score: '', format sk r], [''F1 score: '', format sk f],
            [[CHR 0x0A, CHR 0x0A]]]\<rparr>)
    \<and> print_metrics sk y_true preds (Some name) w =
        (Inr (), w\<lparr>printed := printed w @
           [[''Accuracy score for '' @ name @ '' :'', format sk a],
            [''Precision score '' @ name @ '' :'', format sk p],
            [''Recall score '' @ name @ '' :'', format sk r],
            [''F1 score '' @ name @ '' :'', format sk f],
            [[CHR 0x0A, CHR 0x0A]]]\<rparr>)"
    by (intro impI conjI) (erule print_metrics_returns)+
  have only: "print_metrics sk y_true preds model_name w = (Inr u, w1) \<longrightarrow>
        (\<exists>a p r f. scores sk y_true preds = [Inr a, Inr p, Inr r, Inr f])"
    by (intro impI) (erule print_metrics_Inr)
  have run: "rd ''Data/SMSSpamCollection'' (CHR 0x09) = Inr df
        \<and> train_test_split sk' (map snd df) (map (\<lambda>row. map_label (fst row)) df) 1 =
            (X_train, X_test, ytr, yte)
        \<and> (\<forall>preds. \<exists>a p r f. scores sk' yte preds = [Inr a, Inr p, Inr r, Inr f]) \<longrightarrow>
      (\<exists>s w'. spam_notebook rd sk' wn = (Inr s, w'))"
  proof (intro impI, elim conjE)
    assume "rd ''Data/SMSSpamCollection'' (CHR 0x09) = Inr df"
      and "train_test_split sk' (map snd df) (map (\<lambda>row. map_label (fst row)) df) 1 =
            (X_train, X_test, ytr, yte)"
      and "\<forall>preds. \<exists>a p r f. scores sk' yte preds = [Inr a, Inr p, Inr r, Inr f]"
    then show "\<exists>s w'. spam_notebook rd sk' wn = (Inr s, w')"
      using spam_notebook_returns [where rd = rd and df = df and sk = sk' and X_train = X_train
          and X_test = X_test and ytr = ytr and yte = yte and w = wn]
      by simp
  qed
  from ret only print_metrics_model_name(1) [of sk y_true preds name w]
    print_metrics_model_name(2) [of sk y_true preds name w] run impI [OF nb]
  show ?thesis
    by (intro conjI)
qed

theorem four_metrics_when_returning_C8_witness:
  "print_metrics
        \<lparr>train_test_split = \<lambda>X y r. (X, X, y, y), fit_transform = \<lambda>X. ((), X),
          transform = \<lambda>c X. X, fit = \<lambda>e f y. y, predict = \<lambda>m f. m,
          accuracy_score = \<lambda>a b. Inr 1, precision_score = \<lambda>a b. Inr 1,
          recall_score = \<lambda>a b. Inr 1, f1_score = \<lambda>a b. Inr 1, format = \<lambda>r. ''1.0''\<rparr>
        [Some (0 :: int), Some 1] [Some 0, Some 1] (Some ''bagging'') \<lparr>reads = [], printed = []\<rparr> =
       (Inr (), \<lparr>reads = [], printed =
         [[''Accuracy score for bagging :'', ''1.0''], [''Precision score bagging :'', ''1.0''],
          [''Recall score bagging :'', ''1.0''], [''F1 score bagging :'', ''1.0''],
          [[CHR 0x0A, CHR 0x0A]]]\<rparr>)
   \<and> (\<exists>s w'. spam_notebook (\<lambda>path sep. Inr [(''ham'', ''hello''), (''spam'', ''win'')])
        \<lparr>train_test_split = \<lambda>X y r. (X, X, y, y), fit_transform = \<lambda>X. ((), X),
          transform = \<lambda>c X. X, fit = \<lambda>e f y. y, predict = \<lambda>m f. m,
          accuracy_score = \<lambda>a b. Inr 1, precision_score = \<lambda>a b. Inr 1,
          recall_score = \<lambda>a b. Inr 1, f1_score = \<lambda>a b. Inr 1, format = \<lambda>r. ''1.0''\<rparr>
        \<lparr>reads = [], printed = []\<rparr> = (Inr s, w')
        \<and> y_test s = [Some 0, Some 1]
        \<and> bagging_pred s = [Some 0, Some 1]
        \<and> map last (filter (\<lambda>call. length call = 2) (printed w')) = replicate 20 ''1.0'')"
proof -
  let ?sk = "\<lparr>train_test_split = \<lambda>X (y :: int option list) r. (X, X, y, y), fit_transform = \<lambda>X. ((), X),
          transform = \<lambda>c X. X, fit = \<lambda>e f y. y, predict = \<lambda>m f. m,
          accuracy_score = \<lambda>a b. Inr 1, precision_score = \<lambda>a b. Inr 1,
          recall_score = \<lambda>a b. Inr 1, f1_score = \<lambda>a b. Inr 1, format = \<lambda>r. ''1.0''\<rparr>"
  let ?rd = "\<lambda>path sep. Inr [(''ham'', ''hello''), (''spam'', ''win'')] :: error + (string \<times> string) list"
  let ?w = "\<lparr>reads = [], printed = []\<rparr>"
  let ?y = "[Some (0 :: int), Some 1]"
  have m: "scores ?sk ?y ?y = [Inr 1, Inr 1, Inr 1, Inr 1]"
    by (simp add: scores_def)
  have rd: "?rd ''Data/SMSSpamCollection'' (CHR 0x09) = Inr [(''ham'', ''hello''), (''spam'', ''win'')]"
    by simp
  have split: "train_test_split ?sk
      (map snd [(''ham'', ''hello''), (''spam'', ''win'')])
      (map (\<lambda>row. map_label (fst row)) [(''ham'', ''hello''), (''spam'', ''win'')]) 1 =
      ([''hello'', ''win''], [''hello'', ''win''], ?y, ?y)"
    by (simp add: map_label_def)
  have total: "\<forall>preds. \<exists>a p r f. scores ?sk ?y preds = [Inr a, Inr p, Inr r, Inr f]"
    by (simp add: scores_def)
  note inst = four_metrics_when_returning_C8 [where sk = "?sk" and y_true = "?y" and preds = "?y"
      and a = "1" and p = "1" and r = "1" and f = "1" and w = "?w" and name = "''bagging''"
      and rd = "?rd" and df = "[(''ham'', ''hello''), (''spam'', ''win'')]" and sk' = "?sk"
      and X_train = "[''hello'', ''win'']" and X_test = "[''hello'', ''win'']"
      and ytr = "?y" and yte = "?y" and wn = "?w"]
  have pm: "print_metrics ?sk ?y ?y (Some ''bagging'') ?w =
       (Inr (), \<lparr>reads = [], printed =
         [[''Accuracy score for bagging :'', ''1.0''], [''Precision score bagging :'', ''1.0''],
          [''Recall score bagging :'', ''1.0''], [''F1 score bagging :'', ''1.0''],
          [[CHR 0x0A, CHR 0x0A]]]\<rparr>)"
    using inst [THEN conjunct1, THEN mp, OF m, THEN conjunct2] by simp
  obtain s w' where run: "spam_notebook ?rd ?sk ?w = (Inr s, w')"
    using inst [THEN conjunct2, THEN conjunct2, THEN conjunct2, THEN conjunct2, THEN conjunct1]
      rd split total
    by blast
  obtain df0 X_train X_test cv vs where
        rd0: "?rd ''Data/SMSSpamCollection'' (CHR 0x09) = Inr df0"
    and split0: "train_test_split ?sk (map snd df0) (map (\<lambda>row. map_label (fst row)) df0) 1 =
            (X_train, X_test, y_train s, y_test s)"
    and bag: "bagging_pred s =
            predict ?sk (fit ?sk (BaggingClassifier 200) (training_data s) (y_train s))
              (testing_data s)"
    and sc: "map (scores ?sk (y_test s))
            [predictions s, bagging_pred s, random_pred s, ada_pred s, predictions s] =
            map (map Inr) vs"
    and len: "list_all (\<lambda>v. length v = 4) vs"
    and vals: "map last (filter (\<lambda>call. length call = 2)
              (drop (length (printed ?w)) (printed w'))) = map (format ?sk) (concat vs)"
    using four_metrics_when_returning_C8 [where rd = "?rd" and sk' = "?sk" and wn = "?w"
        and s = s and w' = w', THEN conjunct2, THEN conjunct2, THEN conjunct2, THEN conjunct2,
        THEN conjunct2, THEN mp, OF run]
    by (elim exE conjE) (rule that)
  have df0: "df0 = [(''ham'', ''hello''), (''spam'', ''win'')]"
    using rd0 by simp
  have yt: "y_test s = ?y" "y_train s = ?y"
    using split0 by (auto simp: df0 map_label_def)
  have bp: "bagging_pred s = ?y"
    using bag by (simp add: yt)
  have "length (concat vs) = 4 * length vs"
    using len by (induction vs) simp_all
  moreover have "length vs = 5"
    using arg_cong [OF sc, of length] by simp
  moreover have "map (format ?sk) xs = replicate (length xs) ''1.0''" for xs :: "real list"
    by (induction xs) simp_all
  ultimately have "map last (filter (\<lambda>call. length call = 2) (printed w')) = replicate 20 ''1.0''"
    using vals by simp
  then show ?thesis
    using pm run yt bp by blast
qed



text \<open>
  C10. A run of the regularization notebook reads its data file once, with a comma as
  separator, and a run of the spam notebook reads the SMS collection once, with a tab;
  neither makes another read. On a data file of seven columns, \<open>X\<close> is the first six
  columns and \<open>y\<close> the last.
\<close>

theorem single_read_C10:
  "reads (snd (regularization_notebook rd lasso_fit w)) =
     reads w @ [(''testData/regularizationData.csv'', CHR '','')]
   \<and> reads (snd (spam_notebook rd' sk w)) = reads w @ [(''Data/SMSSpamCollection'', CHR 0x09)]
   \<and> (rd ''testData/regularizationData.csv'' CHR '','' = Inr train_data
        \<and> (\<forall>row\<in>set train_data. length row = 7) \<longrightarrow>
      (\<exists>r w'. regularization_notebook rd lasso_fit w = (Inr r, w')
        \<and> X_frame r = map (take 6) train_data
        \<and> y_series r = map (\<lambda>row. row ! 6) train_data))"
  using regularization_reads [of rd lasso_fit w] spam_reads [of rd' sk w]
    regularization_columns [of rd train_data lasso_fit w]
  by blast

theorem single_read_C10_witness:
  "(\<lambda>path sep. Inr [[1, 2, 3, 4, 5, 6, 7 :: real], [8, 9, 10, 11, 12, 13, 14]])
      ''testData/regularizationData.csv'' CHR '','' =
     (Inr [[1, 2, 3, 4, 5, 6, 7], [8, 9, 10, 11, 12, 13, 14]] :: error + real list list)
   \<and> list_all (\<lambda>row. length row = 7) [[1, 2, 3, 4, 5, 6, 7 :: real], [8, 9, 10, 11, 12, 13, 14]]
   \<and> (\<exists>r w'. regularization_notebook
          (\<lambda>path sep. Inr [[1, 2, 3, 4, 5, 6, 7], [8, 9, 10, 11, 12, 13, 14]])
          (\<lambda>X y. []) \<lparr>reads = [], printed = []\<rparr> = (Inr r, w')
        \<and> X_frame r = [[1, 2, 3, 4, 5, 6], [8, 9, 10, 11, 12, 13]]
        \<and> y_series r = [7, 14]
        \<and> reads w' = [(''testData/regularizationData.csv'', CHR '','')])
   \<and> reads (snd (spam_notebook (\<lambda>path sep. Inr [(''ham'', ''hello''), (''spam'', ''win'')])
        \<lparr>train_test_split = \<lambda>X y r. (X, X, y, y), fit_transform = \<lambda>X. ((), X),
          transform = \<lambda>c X. X, fit = \<lambda>e f y. y, predict = \<lambda>m f. m,
          accuracy_score = \<lambda>a b. Inr 1, precision_score = \<lambda>a b. Inr 1,
          recall_score = \<lambda>a b. Inr 1, f1_score = \<lambda>a b. Inr 1, format = \<lambda>r. ''1.0''\<rparr>
        \<lparr>reads = [], printed = []\<rparr>)) = [(''Data/SMSSpamCollection'', CHR 0x09)]"
  using single_read_C10 [of "\<lambda>path sep. Inr [[1, 2, 3, 4, 5, 6, 7], [8, 9, 10, 11, 12, 13, 14]]"
      "\<lambda>X y. []" "\<lparr>reads = [], printed = []\<rparr>"
      "\<lambda>path sep. Inr [(''ham'', ''hello''), (''spam'', ''win'')]"
      "\<lparr>train_test_split = \<lambda>X y r. (X, X, y, y), fit_transform = \<lambda>X. ((), X),
        transform = \<lambda>c X. X, fit = \<lambda>e f y. y, predict = \<lambda>m f. m,
        accuracy_score = \<lambda>a b. Inr 1, precision_score = \<lambda>a b. Inr 1,
        recall_score = \<lambda>a b. Inr 1, f1_score = \<lambda>a b. Inr 1, format = \<lambda>r. ''1.0''\<rparr>"
      "[[1, 2, 3, 4, 5, 6, 7], [8, 9, 10, 11, 12, 13, 14]]"]
  by auto

end
